theory Spec2Isabelle
  imports Complex_Main "HOL-Library.Log_Nat"
begin

section \<open>Values exchanged with the browser and the backend\<close>

text \<open>
  The two screens are React function components: \<^verbatim>\<open>BookingRoutes.jsx\<close> (the rider
  screen) and the driver dashboard. A component is modelled by a record of its
  \<^verbatim>\<open>useState\<close> variables and \<^verbatim>\<open>useRef\<close> cells, together with the part of the
  browser window the code acts on (interval timers, abort controllers) and a trace of
  the effects it performs (alerts, requests, map calls). Each handler is a function
  from state to state. An \<^verbatim>\<open>async\<close> handler is cut at its \<^verbatim>\<open>await\<close>: one function runs
  the code up to the request, a second one runs the code after it, given the outcome of
  the request and the values its closure captured before the \<^verbatim>\<open>await\<close>.

  A JavaScript number is an IEEE 754 double. A finite double is modelled by its value,
  a rational, and an arithmetic operation by the exact operation followed by \<open>fl\<close>, the
  rounding to the nearest double. \<^verbatim>\<open>NaN\<close>, the infinities and the sign of zero are
  outside the model: every number is finite and below \<open>2^1024\<close> in magnitude.
  \<^verbatim>\<open>console\<close> output is left out.
\<close>

type_synonym coord = "rat \<times> rat"

text \<open>
  Strings are byte strings where the code only compares them; the search query, whose
  \<^verbatim>\<open>length\<close> the code tests, is the list of its UTF-16 code units, which is what
  JavaScript counts. \<open>utf16\<close> gives the code units of an ASCII string.
\<close>

type_synonym js_string = "nat list"

definition utf16 :: "string \<Rightarrow> js_string" where
  "utf16 s = map of_char s"

text \<open>An identifier in a JSON answer: a string or a number.\<close>

datatype jsid = IdStr string | IdNum int

text \<open>JavaScript truthiness of the values that the code tests with \<^verbatim>\<open>!\<close>, \<^verbatim>\<open>||\<close> and \<^verbatim>\<open>if\<close>;
  \<open>None\<close> stands for \<^verbatim>\<open>null\<close>, \<^verbatim>\<open>undefined\<close> and an absent field.\<close>

definition truthy_str :: "string option \<Rightarrow> bool" where
  "truthy_str v = (case v of None \<Rightarrow> False | Some s \<Rightarrow> s \<noteq> [])"

definition truthy_id :: "jsid option \<Rightarrow> bool" where
  "truthy_id v = (case v of None \<Rightarrow> False | Some (IdStr s) \<Rightarrow> s \<noteq> [] | Some (IdNum n) \<Rightarrow> n \<noteq> 0)"

text \<open>\<^verbatim>\<open>a || b\<close>, for a given notion of truthiness.\<close>

definition js_or :: "('a \<Rightarrow> bool) \<Rightarrow> 'a \<Rightarrow> 'a \<Rightarrow> 'a" where
  "js_or truthy a b = (if truthy a then a else b)"

text \<open>\<^verbatim>\<open>s || 'default'\<close> for a string field.\<close>

definition str_or :: "string option \<Rightarrow> string \<Rightarrow> string" where
  "str_or v d = (case v of None \<Rightarrow> d | Some s \<Rightarrow> if s = [] then d else s)"

subsection \<open>Doubles\<close>

text \<open>\<open>ilog2 x\<close> is the exponent of the power of two at or below a positive \<open>x\<close>.\<close>

definition ilog2 :: "rat \<Rightarrow> int" where
  "ilog2 x = (if 1 \<le> x then bitlen \<lfloor>x\<rfloor> - 1 else - bitlen (\<lceil>1 / x\<rceil> - 1))"

text \<open>Rounding to the nearest integer, a tie going to the even one.\<close>

definition rne :: "rat \<Rightarrow> int" where
  "rne y =
     (let f = \<lfloor>y\<rfloor>; r = y - of_int f
      in if r < 1 / 2 then f else if 1 / 2 < r then f + 1 else if even f then f else f + 1)"

text \<open>The double nearest to \<open>x\<close> (round to nearest, ties to even): a significand of 53
  bits, the exponent of the last bit not below \<open>-1074\<close> (the subnormal range).\<close>

definition fl :: "rat \<Rightarrow> rat" where
  "fl x =
     (if x = 0 then 0
      else let e = max (ilog2 \<bar>x\<bar> - 52) (- 1074)
           in of_int (rne (x / 2 powi e)) * 2 powi e)"

text \<open>\<^verbatim>\<open>x.toFixed(2)\<close>, as the decimal number the string denotes. ECMAScript splits the
  sign off and takes the integer \<open>n\<close> for which \<open>n / 100\<close> is nearest to the value of
  the double, the larger \<open>n\<close> on a tie. From \<open>10^21\<close> on the string is that of
  \<^verbatim>\<open>String(x)\<close>, a decimal that reads back as \<open>x\<close>, and \<open>x\<close> stands for it here.
  \<^verbatim>\<open>parseFloat\<close> of the string is \<open>fl\<close> of the number it denotes.\<close>

definition hundredths :: "rat \<Rightarrow> int" where
  "hundredths x = (if x < 0 then - \<lfloor>(- x) * 100 + 1 / 2\<rfloor> else \<lfloor>x * 100 + 1 / 2\<rfloor>)"

definition toFixed2 :: "rat \<Rightarrow> rat" where
  "toFixed2 x = (if 10 ^ 21 \<le> \<bar>x\<bar> then x else of_int (hundredths x) / 100)"

text \<open>The error object that axios rejects with: \<^verbatim>\<open>err.code\<close>, \<^verbatim>\<open>axios.isCancel(err)\<close>,
  \<^verbatim>\<open>err.response?.status\<close>, \<^verbatim>\<open>err.response?.data?.message\<close> and \<^verbatim>\<open>err.message\<close>.\<close>

record http_error =
  err_code :: "string option"
  err_isCancel :: bool
  err_status :: "nat option"
  err_data_message :: "string option"
  err_message :: string

datatype 'a outcome = Ok 'a | Failed http_error

text \<open>The routing service's answer: \<^verbatim>\<open>data.routes\<close>, each route with \<^verbatim>\<open>distance\<close> (meters),
  \<^verbatim>\<open>duration\<close> (seconds), both the doubles that \<^verbatim>\<open>response.json()\<close> gives, and
  \<^verbatim>\<open>geometry.coordinates\<close> (longitude first).\<close>

record osrm_route =
  rt_distance :: rat
  rt_duration :: rat
  rt_geometry :: "coord list option"

record route_info =
  distance :: rat
  duration :: int

text \<open>A geocoding suggestion; \<^verbatim>\<open>lat\<close> and \<^verbatim>\<open>lon\<close> are given here as the numbers that
  \<^verbatim>\<open>parseFloat\<close> reads from the strings of the answer.\<close>

record place =
  place_id :: nat
  lat :: rat
  lon :: rat
  display_name :: string

text \<open>The body of the create-booking request (source lines 330--338).\<close>

record booking_body =
  startLocation :: string
  endLocation :: string
  b_distance :: rat
  estimatedTime :: int
  estimatedFare :: rat
  pickupCoords :: "coord option"
  dropoffCoords :: "coord option"

text \<open>The fields the code reads from the create-booking answer:
  \<^verbatim>\<open>bookingId\<close>, \<^verbatim>\<open>_id\<close> and \<^verbatim>\<open>id\<close>.\<close>

record created =
  bookingId :: "jsid option"
  id_underscore :: "jsid option"
  id_plain :: "jsid option"

record driver_contact =
  dc_name :: "string option"
  dc_mobile :: "string option"

text \<open>The fields read from the answer of \<^verbatim>\<open>/api/bookings/:id/status\<close>.\<close>

record status_data =
  sd_status :: "string option"
  sd_bookingStatus :: "string option"
  sd_assignedDriver :: "driver_contact option"
  sd_driver :: "driver_contact option"

text \<open>The fields read from the answer of the fallback \<^verbatim>\<open>/api/bookings/:id\<close>.\<close>

record booking_data =
  bd_status :: "string option"
  bd_driverName :: "string option"
  bd_driverPhone :: "string option"

text \<open>An entry of the pending-rides list; \<open>ride_id\<close> is its \<^verbatim>\<open>_id\<close>.\<close>

record ride =
  ride_id :: "string option"
  ride_details :: string

text \<open>The fields read from the profile answer, and the \<^verbatim>\<open>driver\<close> object of the
  availability answer.\<close>

record driver_profile =
  dp_status :: "string option"
  dp_isAvailable :: "bool option"

record driver_ack =
  da_isAvailable :: bool
  da_status :: string

datatype request =
    ReverseGeocode rat rat
  | Route coord coord
  | Search js_string
  | CreateBooking booking_body string
  | GetStatus jsid string
  | GetBooking jsid string
  | GetProfile "string option" "string option"
  | GetPending "string option"
  | PatchAvailability "string option" bool "string option"
  | PatchAccept "string option" "string option" "string option" "string option"
  | PatchDecline "string option" "string option" "string option"

datatype alert_msg =
    SelectBoth
  | WaitForRoute
  | LoginFirst
  | NoBookingId
  | BookingConfirmed booking_body jsid
  | BookingTimedOut
  | BookingFailed string
  | DriverFound string string
  | AvailabilityFailed
  | RideAccepted "string option"
  | AcceptFailed string
  | DeclineFailed string

text \<open>What a handler does beyond changing state; \<open>NavigateBooking id\<close> is the
  navigation to \<^verbatim>\<open>/booking/${id}\<close>. A request carries the handle of the
  abort controller whose signal it was given, if any. Every call of \<^verbatim>\<open>setPollStatus\<close>
  is recorded, so that a state of the poller that the same handler overwrites stays
  visible.\<close>

datatype effect =
    Alert alert_msg
  | Sent request "nat option"
  | PollStatus string
  | MapSetView coord nat
  | MapFlyTo coord nat
  | MapRemoveLayer "coord list"
  | MapAddPolyline "coord list"
  | MapFitBounds "coord list"
  | Navigate string
  | NavigateBooking "string option"

section \<open>What both screens share: poller state, timers, abort controllers\<close>

text \<open>
  Both components declare \<^verbatim>\<open>pollStatus\<close>, \<^verbatim>\<open>pollIntervalRef\<close> and \<^verbatim>\<open>abortControllerRef\<close>.
  \<open>intervals\<close> are the window's live interval timers (handle, period in ms, and the
  values captured by the callback the timer runs); \<open>aborted\<close> are the abort controllers
  whose \<^verbatim>\<open>abort()\<close> has been called. Handles are positive, hence truthy.
\<close>

record 'cb screen =
  pollStatus :: string
  pollIntervalRef :: "nat option"
  abortControllerRef :: "nat option"
  intervals :: "(nat \<times> nat \<times> 'cb) list"
  aborted :: "nat list"
  nextHandle :: nat
  trace :: "effect list"

definition alert :: "alert_msg \<Rightarrow> ('cb, 'm) screen_scheme \<Rightarrow> ('cb, 'm) screen_scheme" where
  "alert m st = st\<lparr>trace := trace st @ [Alert m]\<rparr>"

definition emit :: "effect \<Rightarrow> ('cb, 'm) screen_scheme \<Rightarrow> ('cb, 'm) screen_scheme" where
  "emit e st = st\<lparr>trace := trace st @ [e]\<rparr>"

definition send :: "request \<Rightarrow> nat option \<Rightarrow> ('cb, 'm) screen_scheme \<Rightarrow> ('cb, 'm) screen_scheme" where
  "send r sig st = st\<lparr>trace := trace st @ [Sent r sig]\<rparr>"

definition setPollStatus :: "string \<Rightarrow> ('cb, 'm) screen_scheme \<Rightarrow> ('cb, 'm) screen_scheme" where
  "setPollStatus v st = st\<lparr>pollStatus := v, trace := trace st @ [PollStatus v]\<rparr>"

text \<open>\<^verbatim>\<open>clearInterval(h)\<close>; a call with \<^verbatim>\<open>null\<close> does nothing.\<close>

definition clearInterval :: "nat option \<Rightarrow> ('cb, 'm) screen_scheme \<Rightarrow> ('cb, 'm) screen_scheme" where
  "clearInterval h st =
     (case h of None \<Rightarrow> st
      | Some t \<Rightarrow> st\<lparr>intervals := filter (\<lambda>e. fst e \<noteq> t) (intervals st)\<rparr>)"

text \<open>\<^verbatim>\<open>pollIntervalRef.current = setInterval(callback, period)\<close>.\<close>

definition startInterval :: "'cb \<Rightarrow> nat \<Rightarrow> ('cb, 'm) screen_scheme \<Rightarrow> ('cb, 'm) screen_scheme" where
  "startInterval cb period st =
     st\<lparr>pollIntervalRef := Some (nextHandle st),
        intervals := intervals st @ [(nextHandle st, period, cb)],
        nextHandle := Suc (nextHandle st)\<rparr>"

text \<open>\<^verbatim>\<open>if (abortControllerRef.current) abortControllerRef.current.abort()\<close>.\<close>

definition abortCurrent :: "('cb, 'm) screen_scheme \<Rightarrow> ('cb, 'm) screen_scheme" where
  "abortCurrent st =
     (case abortControllerRef st of None \<Rightarrow> st
      | Some c \<Rightarrow> st\<lparr>aborted := c # aborted st\<rparr>)"

text \<open>\<^verbatim>\<open>abortControllerRef.current = new AbortController()\<close>. The 8 second
  \<^verbatim>\<open>setTimeout\<close> that follows it in both pollers only ever calls \<^verbatim>\<open>abort()\<close> on the
  current controller and is cleared when the request settles; it is represented by the
  outcome of the request (a cancellation error).\<close>

definition newController :: "('cb, 'm) screen_scheme \<Rightarrow> ('cb, 'm) screen_scheme" where
  "newController st =
     st\<lparr>abortControllerRef := Some (nextHandle st), nextHandle := Suc (nextHandle st)\<rparr>"

text \<open>The callback of a live timer, if the handle is live.\<close>

definition callback_of :: "nat \<Rightarrow> ('cb, 'm) screen_scheme \<Rightarrow> 'cb option" where
  "callback_of t st = map_option snd (map_of (intervals st) t)"

text \<open>\<^verbatim>\<open>clearInterval(pollIntervalRef.current); pollIntervalRef.current = null\<close>.\<close>

definition stopPolling :: "('cb, 'm) screen_scheme \<Rightarrow> ('cb, 'm) screen_scheme" where
  "stopPolling st = (clearInterval (pollIntervalRef st) st)\<lparr>pollIntervalRef := None\<rparr>"

section \<open>The rider screen\<close>

text \<open>
  What the timer callback \<^verbatim>\<open>poll\<close> captures: the arguments of \<^verbatim>\<open>pollBookingStatus\<close>, and
  the \<^verbatim>\<open>currentPos\<close> of the render whose \<^verbatim>\<open>handleRefresh\<close> it calls.
\<close>

record poll_closure =
  pc_bookingId :: jsid
  pc_token :: string
  pc_currentPos :: "coord option"

text \<open>
  The state variables and refs of source lines 16--29. \<open>mapRef\<close> tells whether
  \<^verbatim>\<open>mapRef.current\<close> is set; \<open>routingControlRef\<close> holds the polyline drawn last;
  \<open>searchTimer\<close> is the pending debounce timer of the search effect (its local
  \<^verbatim>\<open>timeout\<close>), with its delay and the query it captured.
\<close>

record rider = "poll_closure screen" +
  currentPos :: "coord option"
  destination :: "coord option"
  routeInfo :: route_info
  searchQuery :: js_string
  suggestions :: "place list"
  isSubmitting :: bool
  startName :: string
  endName :: string
  bookingStatus :: "string option"
  mapRef :: bool
  routingControlRef :: "coord list option"
  searchTimer :: "(nat \<times> js_string) option"

definition initial_rider :: rider where
  "initial_rider =
     \<lparr>pollStatus = ''idle'', pollIntervalRef = None, abortControllerRef = None,
      intervals = [], aborted = [], nextHandle = 1, trace = [],
      currentPos = None, destination = None,
      routeInfo = \<lparr>distance = 0, duration = 0\<rparr>,
      searchQuery = [], suggestions = [], isSubmitting = False,
      startName = ''Detecting your location...'', endName = ''Select destination'',
      bookingStatus = None, mapRef = False, routingControlRef = None,
      searchTimer = None\<rparr>"

definition centerSriLanka :: coord where
  "centerSriLanka = (fl (78731 / 10000), fl (807718 / 10000))"

text \<open>The map widget sets \<^verbatim>\<open>mapRef.current\<close> once it is created.\<close>

definition mapReady :: "rider \<Rightarrow> rider" where
  "mapReady st = st\<lparr>mapRef := True\<rparr>"

text \<open>\<^verbatim>\<open>if (mapRef.current) mapRef.current.setView(pos, zoom)\<close>.\<close>

definition mapSetView :: "coord \<Rightarrow> nat \<Rightarrow> rider \<Rightarrow> rider" where
  "mapSetView pos zoom st = (if mapRef st then emit (MapSetView pos zoom) st else st)"

subsection \<open>Location resolver (source lines 31--79)\<close>

definition geolocationSuccess :: "coord \<Rightarrow> rider \<Rightarrow> rider" where
  "geolocationSuccess pos st = mapSetView pos 13 (st\<lparr>currentPos := Some pos\<rparr>)"

definition geolocationError :: "rider \<Rightarrow> rider" where
  "geolocationError st =
     mapSetView centerSriLanka 8 (st\<lparr>currentPos := Some centerSriLanka, startName := ''Colombo''\<rparr>)"

record address =
  city :: "string option"
  town :: "string option"
  village :: "string option"
  county :: "string option"

text \<open>The value \<^verbatim>\<open>getLocationName\<close> resolves to; an answer without \<^verbatim>\<open>address\<close> makes
  \<^verbatim>\<open>addr.city\<close> throw, which the \<^verbatim>\<open>catch\<close> turns into the placeholder.\<close>

definition getLocationName :: "address option outcome \<Rightarrow> string" where
  "getLocationName res =
     (case res of
        Ok (Some addr) \<Rightarrow>
          str_or (city addr) (str_or (town addr) (str_or (village addr) (str_or (county addr) ''Location'')))
      | Ok None \<Rightarrow> ''Unknown Location''
      | Failed _ \<Rightarrow> ''Unknown Location'')"

definition startNameEffect :: "rider \<Rightarrow> rider" where
  "startNameEffect st =
     (case currentPos st of None \<Rightarrow> st | Some (la, lo) \<Rightarrow> send (ReverseGeocode la lo) None st)"

definition startNameResolved :: "address option outcome \<Rightarrow> rider \<Rightarrow> rider" where
  "startNameResolved res st = st\<lparr>startName := getLocationName res\<rparr>"

definition endNameEffect :: "rider \<Rightarrow> rider" where
  "endNameEffect st =
     (case destination st of None \<Rightarrow> st | Some (la, lo) \<Rightarrow> send (ReverseGeocode la lo) None st)"

definition endNameResolved :: "address option outcome \<Rightarrow> rider \<Rightarrow> rider" where
  "endNameResolved res st = st\<lparr>endName := getLocationName res\<rparr>"

subsection \<open>Route estimator (source lines 81--130)\<close>

text \<open>The effect on \<^verbatim>\<open>[currentPos, destination]\<close>, up to the request of \<^verbatim>\<open>calculateRoute\<close>.\<close>

definition routeEffect :: "rider \<Rightarrow> rider" where
  "routeEffect st =
     (case (currentPos st, destination st) of
        (Some p, Some d) \<Rightarrow>
          if mapRef st then
            send (Route p d) None
              ((case routingControlRef st of None \<Rightarrow> st | Some layer \<Rightarrow> emit (MapRemoveLayer layer) st)
                 \<lparr>routingControlRef := None\<rparr>)
          else st
      | _ \<Rightarrow> st)"

text \<open>Source lines 103--109: \<^verbatim>\<open>parseFloat((route.distance / 1000).toFixed(2))\<close> and
  \<^verbatim>\<open>Math.ceil(route.duration / 60)\<close>, both divisions being those of doubles.\<close>

definition estimate :: "osrm_route \<Rightarrow> route_info" where
  "estimate route =
     \<lparr>distance = fl (toFixed2 (fl (rt_distance route / 1000))),
      duration = \<lceil>fl (rt_duration route / 60)\<rceil>\<rparr>"

text \<open>\<^verbatim>\<open>calculateRoute\<close> after its request (source lines 99--126). \<open>Ok None\<close> is an answer
  without \<^verbatim>\<open>routes\<close>. Drawing on a map that is gone throws, after the estimate is stored.\<close>

definition calculateRoute_response :: "osrm_route list option outcome \<Rightarrow> rider \<Rightarrow> rider" where
  "calculateRoute_response res st =
     (case res of
        Failed _ \<Rightarrow> st
      | Ok None \<Rightarrow> st
      | Ok (Some []) \<Rightarrow> st
      | Ok (Some (route # _)) \<Rightarrow>
          (let s1 = st\<lparr>routeInfo := estimate route\<rparr>
           in case rt_geometry route of
                None \<Rightarrow> s1
              | Some cs \<Rightarrow>
                  (let coords = map (\<lambda>c. (snd c, fst c)) cs
                   in if mapRef s1 then
                        emit (MapFitBounds coords)
                          ((emit (MapAddPolyline coords) s1)\<lparr>routingControlRef := Some coords\<rparr>)
                      else s1)))"

subsection \<open>Destination search (source lines 132--163)\<close>

text \<open>The body of the effect on \<^verbatim>\<open>[searchQuery]\<close>, and its cleanup.\<close>

definition searchEffect :: "rider \<Rightarrow> rider" where
  "searchEffect st =
     (if searchQuery st = [] \<or> length (searchQuery st) < 2 then st\<lparr>suggestions := []\<rparr>
      else st\<lparr>searchTimer := Some (500, searchQuery st)\<rparr>)"

definition searchCleanup :: "rider \<Rightarrow> rider" where
  "searchCleanup st = st\<lparr>searchTimer := None\<rparr>"

text \<open>The input's \<^verbatim>\<open>onChange\<close> (source line 404) and the re-render it causes: React
  re-runs the effect, after the cleanup of its previous run, when the query changed.\<close>

definition typed :: "js_string \<Rightarrow> rider \<Rightarrow> rider" where
  "typed q st =
     (if q = searchQuery st then st else searchEffect (searchCleanup (st\<lparr>searchQuery := q\<rparr>)))"

text \<open>The debounce timer fires: the request of source lines 140--144.\<close>

definition searchTimerFired :: "rider \<Rightarrow> rider" where
  "searchTimerFired st =
     (case searchTimer st of
        None \<Rightarrow> st
      | Some (d, q) \<Rightarrow> send (Search q) None (st\<lparr>searchTimer := None\<rparr>))"

definition search_response :: "place list outcome \<Rightarrow> rider \<Rightarrow> rider" where
  "search_response res st = (case res of Ok data \<Rightarrow> st\<lparr>suggestions := data\<rparr> | Failed _ \<Rightarrow> st)"

definition selectPlace :: "place \<Rightarrow> rider \<Rightarrow> rider" where
  "selectPlace p st =
     (let dest = (lat p, lon p);
          s1 = st\<lparr>destination := Some dest, searchQuery := [], suggestions := []\<rparr>
      in if mapRef s1 then emit (MapFlyTo dest 13) s1 else s1)"

subsection \<open>Reset (source lines 165--186)\<close>

text \<open>\<open>cp\<close> is the \<^verbatim>\<open>currentPos\<close> of the render this \<^verbatim>\<open>handleRefresh\<close> belongs to: the
  current one when the button is clicked, a captured one when \<^verbatim>\<open>poll\<close> calls it.\<close>

definition handleRefresh :: "coord option \<Rightarrow> rider \<Rightarrow> rider" where
  "handleRefresh cp st =
     (let s1 = setPollStatus ''idle''
                 (st\<lparr>destination := None, searchQuery := [], suggestions := [],
                     routeInfo := \<lparr>distance = 0, duration = 0\<rparr>,
                     endName := ''Select destination'', bookingStatus := None\<rparr>);
          s2 = (if pollIntervalRef s1 \<noteq> None then stopPolling s1 else s1);
          s3 = abortCurrent s2
      in case cp of None \<Rightarrow> s3 | Some p \<Rightarrow> mapSetView p 13 s3)"

definition refreshClicked :: "rider \<Rightarrow> rider" where
  "refreshClicked st = handleRefresh (currentPos st) st"

subsection \<open>Status poller (source lines 189--292)\<close>

text \<open>\<^verbatim>\<open>poll\<close> up to its request (source lines 198--221).\<close>

definition poll :: "poll_closure \<Rightarrow> rider \<Rightarrow> rider" where
  "poll cl st =
     (let s = setPollStatus ''polling'' (newController (abortCurrent st))
      in send (GetStatus (pc_bookingId cl) (pc_token cl)) (abortControllerRef s) s)"

definition pollBookingStatus :: "poll_closure \<Rightarrow> rider \<Rightarrow> rider" where
  "pollBookingStatus cl st =
     startInterval cl 3000 (poll cl (if pollIntervalRef st \<noteq> None then stopPolling st else st))"

text \<open>The interval timer with handle \<open>t\<close> fires; a cleared timer never runs its callback.\<close>

definition timerFired :: "nat \<Rightarrow> rider \<Rightarrow> rider" where
  "timerFired t st = (case callback_of t st of None \<Rightarrow> st | Some cl \<Rightarrow> poll cl st)"

definition contact_name :: "driver_contact option \<Rightarrow> string" where
  "contact_name d = str_or (case d of None \<Rightarrow> None | Some c \<Rightarrow> dc_name c) ''Unknown''"

definition contact_mobile :: "driver_contact option \<Rightarrow> string" where
  "contact_mobile d = str_or (case d of None \<Rightarrow> None | Some c \<Rightarrow> dc_mobile c) ''N/A''"

text \<open>Source line 225: \<^verbatim>\<open>data.status || data.bookingStatus\<close>.\<close>

definition status_of :: "status_data \<Rightarrow> string option" where
  "status_of data = js_or truthy_str (sd_status data) (sd_bookingStatus data)"

text \<open>\<^verbatim>\<open>poll\<close> after the status request (source lines 223--284), up to the fallback
  request in the 404 case.\<close>

definition poll_response :: "poll_closure \<Rightarrow> status_data outcome \<Rightarrow> rider \<Rightarrow> rider" where
  "poll_response cl res st =
     (case res of
        Ok data \<Rightarrow>
          (let status = status_of data;
               assignedDriver = js_or (\<lambda>d. d \<noteq> None) (sd_assignedDriver data) (sd_driver data);
               s1 = st\<lparr>bookingStatus := status\<rparr>
           in if status = Some ''DRIVER_ASSIGNED'' \<or> status = Some ''ACCEPTED'' then
                handleRefresh (pc_currentPos cl)
                  (stopPolling
                     (alert (DriverFound (contact_name assignedDriver) (contact_mobile assignedDriver))
                        (setPollStatus ''found'' s1)))
              else if status = Some ''FINISHED'' \<or> status = Some ''COMPLETED''
                      \<or> status = Some ''CANCELLED'' then
                stopPolling (setPollStatus ''idle'' s1)
              else s1)
      | Failed err \<Rightarrow>
          if err_code err = Some ''ECONNABORTED'' \<or> err_isCancel err then setPollStatus ''timeout'' st
          else if err_status err = Some 404 then
            send (GetBooking (pc_bookingId cl) (pc_token cl)) None st
          else setPollStatus ''idle'' st)"

text \<open>\<^verbatim>\<open>poll\<close> after the fallback request (source lines 264--279).\<close>

definition poll_fallback_response :: "poll_closure \<Rightarrow> booking_data outcome \<Rightarrow> rider \<Rightarrow> rider" where
  "poll_fallback_response cl res st =
     (case res of
        Ok booking \<Rightarrow>
          (let s1 = setPollStatus ''idle'' (st\<lparr>bookingStatus := bd_status booking\<rparr>)
           in if bd_status booking = Some ''ACCEPTED'' then
                handleRefresh (pc_currentPos cl)
                  (stopPolling
                     (alert (DriverFound (str_or (bd_driverName booking) ''Unknown'')
                                         (str_or (bd_driverPhone booking) ''N/A''))
                        (setPollStatus ''found'' s1)))
              else s1)
      | Failed _ \<Rightarrow> setPollStatus ''idle'' st)"

subsection \<open>Booking submitter (source lines 294--390)\<close>

text \<open>The string \<^verbatim>\<open>fare\<close> of source line 314, \<^verbatim>\<open>(routeInfo.distance * 50).toFixed(2)\<close>, as
  the decimal number it denotes, and the same expression in the card (JSX). The request
  carries \<^verbatim>\<open>parseFloat(fare)\<close> (line 335).\<close>

definition fare :: "rider \<Rightarrow> rat" where
  "fare st = toFixed2 (fl (distance (routeInfo st) * 50))"

definition displayedFare :: "rider \<Rightarrow> rat" where
  "displayedFare st = toFixed2 (fl (distance (routeInfo st) * 50))"

definition booking_request :: "rider \<Rightarrow> booking_body" where
  "booking_request st =
     \<lparr>startLocation = startName st, endLocation = endName st,
      b_distance = distance (routeInfo st), estimatedTime = duration (routeInfo st),
      estimatedFare = fl (fare st), pickupCoords = currentPos st, dropoffCoords = destination st\<rparr>"

text \<open>\<^verbatim>\<open>saveRoute\<close> up to its request; \<open>token\<close> is \<^verbatim>\<open>localStorage.getItem("token")\<close>. The
  request carries the signal of a controller of its own.\<close>

definition saveRoute :: "string option \<Rightarrow> rider \<Rightarrow> rider" where
  "saveRoute token st =
     (if currentPos st = None \<or> destination st = None then alert SelectBoth st
      else if distance (routeInfo st) = 0 then alert WaitForRoute st
      else case token of
             None \<Rightarrow> alert LoginFirst st
           | Some tok \<Rightarrow>
               if tok = [] then alert LoginFirst st
               else send (CreateBooking (booking_request st) tok) (Some (nextHandle st))
                      (st\<lparr>isSubmitting := True, nextHandle := Suc (nextHandle st)\<rparr>))"

text \<open>\<^verbatim>\<open>saveRoute\<close> after its request (source lines 347--389); \<open>body\<close> and \<open>tok\<close> are the
  values of the render in which the button was clicked.\<close>

definition saveRoute_response :: "booking_body \<Rightarrow> string \<Rightarrow> created outcome \<Rightarrow> rider \<Rightarrow> rider" where
  "saveRoute_response body tok res st =
     (case res of
        Ok data \<Rightarrow>
          (let bid = js_or truthy_id (js_or truthy_id (bookingId data) (id_underscore data)) (id_plain data)
           in case bid of
                None \<Rightarrow> alert NoBookingId st
              | Some b \<Rightarrow>
                  if \<not> truthy_id bid then alert NoBookingId st
                  else pollBookingStatus
                         \<lparr>pc_bookingId = b, pc_token = tok, pc_currentPos = pickupCoords body\<rparr>
                         (alert (BookingConfirmed body b) (st\<lparr>bookingStatus := Some ''PENDING''\<rparr>)))
      | Failed err \<Rightarrow>
          if err_code err = Some ''ECONNABORTED'' then alert BookingTimedOut st
          else alert (BookingFailed (str_or (err_data_message err) (err_message err))) st)
     \<lparr>isSubmitting := False\<rparr>"

subsection \<open>The transitions of the rider screen\<close>

text \<open>
  One rule for each handler, effect body, timer and continuation. Nothing is assumed
  about the order in which the browser and React run them, nor about the answers of the
  services, so the relation allows every interleaving the component can go through
  (and more): what holds in every reachable state holds in every state of the screen.
\<close>

inductive rider_trans :: "rider \<Rightarrow> rider \<Rightarrow> bool" where
  t_mapReady: "rider_trans st (mapReady st)"
| t_geoSuccess: "rider_trans st (geolocationSuccess pos st)"
| t_geoError: "rider_trans st (geolocationError st)"
| t_startNameEffect: "rider_trans st (startNameEffect st)"
| t_startNameResolved: "rider_trans st (startNameResolved ares st)"
| t_endNameEffect: "rider_trans st (endNameEffect st)"
| t_endNameResolved: "rider_trans st (endNameResolved ares st)"
| t_routeEffect: "rider_trans st (routeEffect st)"
| t_routeResponse: "rider_trans st (calculateRoute_response rres st)"
| t_typed: "rider_trans st (typed q st)"
| t_searchEffect: "rider_trans st (searchEffect (searchCleanup st))"
| t_searchTimer: "rider_trans st (searchTimerFired st)"
| t_searchResponse: "rider_trans st (search_response sres st)"
| t_selectPlace: "rider_trans st (selectPlace p st)"
| t_refresh: "rider_trans st (refreshClicked st)"
| t_saveRoute: "rider_trans st (saveRoute token st)"
| t_saveResponse: "rider_trans st (saveRoute_response body tok cres st)"
| t_timer: "rider_trans st (timerFired t st)"
| t_pollResponse: "rider_trans st (poll_response cl pres st)"
| t_fallbackResponse: "rider_trans st (poll_fallback_response cl fres st)"

inductive reachable :: "rider \<Rightarrow> bool" where
  r_init: "reachable initial_rider"
| r_step: "reachable st \<Longrightarrow> rider_trans st st' \<Longrightarrow> reachable st'"

text \<open>At most one interval timer is live, and it is the one \<^verbatim>\<open>pollIntervalRef\<close> holds.\<close>

definition timer_inv :: "('cb, 'm) screen_scheme \<Rightarrow> bool" where
  "timer_inv st =
     (map fst (intervals st) = (case pollIntervalRef st of None \<Rightarrow> [] | Some t \<Rightarrow> [t]))"

text \<open>The queries of the geocoding searches in a trace.\<close>

fun search_queries :: "effect list \<Rightarrow> js_string list" where
  "search_queries [] = []"
| "search_queries (Sent (Search q) sig # es) = q # search_queries es"
| "search_queries (e # es) = search_queries es"

text \<open>A pending debounce timer has the delay of 500 ms and a query of two characters
  at least, and so has every search that was sent.\<close>

fun debounce_ok :: "(nat \<times> js_string) option \<Rightarrow> bool" where
  "debounce_ok None = True"
| "debounce_ok (Some (d, q)) = (d = 500 \<and> 2 \<le> length q)"

definition search_inv :: "rider \<Rightarrow> bool" where
  "search_inv st =
     (debounce_ok (searchTimer st) \<and> list_all (\<lambda>q. 2 \<le> length q) (search_queries (trace st)))"

text \<open>The abort controllers whose signals the status requests in a trace were given.\<close>

fun status_signals :: "effect list \<Rightarrow> nat list" where
  "status_signals [] = []"
| "status_signals (Sent (GetStatus b t) (Some c) # es) = c # status_signals es"
| "status_signals (e # es) = status_signals es"

text \<open>Every status request but the one of the controller that \<^verbatim>\<open>abortControllerRef\<close>
  holds has been aborted: the poller has one request in flight at most.\<close>

definition signal_inv :: "rider \<Rightarrow> bool" where
  "signal_inv st =
     list_all (\<lambda>c. c \<in> set (aborted st) \<or> abortControllerRef st = Some c)
       (status_signals (trace st))"

text \<open>The requests in a trace, in the order they were sent.\<close>

fun requests :: "effect list \<Rightarrow> request list" where
  "requests [] = []"
| "requests (Sent r sig # es) = r # requests es"
| "requests (e # es) = requests es"

section \<open>The driver screen\<close>

text \<open>
  \<^verbatim>\<open>fetchAvailableRides\<close> reads \<^verbatim>\<open>isAvailable\<close> and \<^verbatim>\<open>pollInterval\<close> of the render
  that created it, not the latest ones: a timer callback and the code after an
  \<^verbatim>\<open>await\<close> keep the function of their render.
\<close>

record fetch_closure =
  fc_isAvailable :: bool
  fc_pollInterval :: nat

text \<open>
  The state variables and refs of source lines 10--20; \<open>token\<close>, \<open>driverId\<close> and
  \<open>driverName\<close> are the items of \<^verbatim>\<open>localStorage\<close> that every render reads
  (lines 22--24).
\<close>

record driver = "fetch_closure screen" +
  driverInfo :: "driver_profile option"
  status :: string
  isAvailable :: bool
  rides :: "ride list"
  loading :: bool
  updating :: bool
  lastChecked :: "string option"
  pollInterval :: nat
  token :: "string option"
  driverId :: "string option"
  driverName :: "string option"

definition initial_driver :: "string option \<Rightarrow> string option \<Rightarrow> string option \<Rightarrow> driver" where
  "initial_driver tok did dname =
     \<lparr>pollStatus = ''idle'', pollIntervalRef = None, abortControllerRef = None,
      intervals = [], aborted = [], nextHandle = 1, trace = [],
      driverInfo = None, status = ''OFFLINE'', isAvailable = False, rides = [],
      loading = True, updating = False, lastChecked = None, pollInterval = 5000,
      token = tok, driverId = did, driverName = dname\<rparr>"

definition closure_of :: "driver \<Rightarrow> fetch_closure" where
  "closure_of st = \<lparr>fc_isAvailable = isAvailable st, fc_pollInterval = pollInterval st\<rparr>"

subsection \<open>Profile (source lines 27--41)\<close>

definition fetchDriverProfile :: "driver \<Rightarrow> driver" where
  "fetchDriverProfile st = send (GetProfile (driverId st) (token st)) None st"

definition fetchDriverProfile_response :: "driver_profile outcome \<Rightarrow> driver \<Rightarrow> driver" where
  "fetchDriverProfile_response res st =
     (case res of
        Ok data \<Rightarrow>
          st\<lparr>driverInfo := Some data, status := str_or (dp_status data) ''OFFLINE'',
             isAvailable := (dp_isAvailable data = Some True), loading := False\<rparr>
      | Failed _ \<Rightarrow>
          emit (Navigate ''/'') (st\<lparr>token := None, driverId := None, driverName := None\<rparr>))"

subsection \<open>Availability poller (source lines 44--104)\<close>

text \<open>\<^verbatim>\<open>fetchAvailableRides\<close> up to its request.\<close>

definition fetchAvailableRides :: "fetch_closure \<Rightarrow> driver \<Rightarrow> driver" where
  "fetchAvailableRides cl st =
     (if \<not> fc_isAvailable cl then st\<lparr>rides := []\<rparr>
      else (let s = setPollStatus ''polling'' (newController (abortCurrent st))
            in send (GetPending (token s)) (abortControllerRef s) s))"

text \<open>\<^verbatim>\<open>fetchAvailableRides\<close> after its request (source lines 68--103); \<open>Ok None\<close> is
  an answer without data, \<open>now\<close> the time of day that \<^verbatim>\<open>lastChecked\<close> gets.\<close>

definition fetchAvailableRides_response ::
    "fetch_closure \<Rightarrow> string \<Rightarrow> ride list option outcome \<Rightarrow> driver \<Rightarrow> driver" where
  "fetchAvailableRides_response cl now res st =
     (case res of
        Ok data \<Rightarrow>
          setPollStatus ''idle''
            ((case data of
                Some (r # rs) \<Rightarrow>
                  (let s = st\<lparr>rides := r # rs\<rparr>
                   in if fc_pollInterval cl \<noteq> 1000 then s\<lparr>pollInterval := 1000\<rparr> else s)
              | _ \<Rightarrow>
                  (let s = st\<lparr>rides := []\<rparr>
                   in if fc_pollInterval cl \<noteq> 10000 then s\<lparr>pollInterval := 10000\<rparr> else s))
               \<lparr>lastChecked := Some now\<rparr>)
      | Failed err \<Rightarrow>
          (if err_code err = Some ''ECONNABORTED'' then setPollStatus ''paused'' st
           else if err_isCancel err then st
           else setPollStatus ''idle'' st)\<lparr>rides := []\<rparr>)"

subsection \<open>Availability toggle (source lines 107--136)\<close>

definition toggleAvailability :: "driver \<Rightarrow> driver" where
  "toggleAvailability st =
     send (PatchAvailability (driverId st) (\<not> isAvailable st) (token st)) None (st\<lparr>updating := True\<rparr>)"

text \<open>\<^verbatim>\<open>toggleAvailability\<close> after its request; \<open>cl\<close> belongs to the render in which
  the button was clicked. When \<^verbatim>\<open>fetchAvailableRides\<close> does send a request, the
  \<^verbatim>\<open>finally\<close> block waits for it (\<open>toggleAvailability_resume\<close>).\<close>

definition toggleAvailability_response :: "fetch_closure \<Rightarrow> driver_ack outcome \<Rightarrow> driver \<Rightarrow> driver" where
  "toggleAvailability_response cl res st =
     (case res of
        Ok drv \<Rightarrow>
          (let newAvailability = da_isAvailable drv;
               s1 = st\<lparr>isAvailable := newAvailability, status := da_status drv\<rparr>
           in if \<not> newAvailability then (setPollStatus ''idle'' (s1\<lparr>rides := []\<rparr>))\<lparr>updating := False\<rparr>
              else (let s2 = fetchAvailableRides cl (s1\<lparr>pollInterval := 5000\<rparr>)
                    in if fc_isAvailable cl then s2 else s2\<lparr>updating := False\<rparr>))
      | Failed _ \<Rightarrow> (alert AvailabilityFailed st)\<lparr>updating := False\<rparr>)"

definition toggleAvailability_resume ::
    "fetch_closure \<Rightarrow> string \<Rightarrow> ride list option outcome \<Rightarrow> driver \<Rightarrow> driver" where
  "toggleAvailability_resume cl now res st =
     (fetchAvailableRides_response cl now res st)\<lparr>updating := False\<rparr>"

subsection \<open>Accept and decline (source lines 139--178)\<close>

definition handleAccept :: "string option \<Rightarrow> driver \<Rightarrow> driver" where
  "handleAccept rideId st =
     send (PatchAccept rideId (driverId st) (driverName st) (token st)) None st"

definition handleAccept_response :: "string option \<Rightarrow> unit outcome \<Rightarrow> driver \<Rightarrow> driver" where
  "handleAccept_response rideId res st =
     (case res of
        Ok _ \<Rightarrow>
          emit (NavigateBooking rideId)
            (alert (RideAccepted rideId) (st\<lparr>rides := filter (\<lambda>r. ride_id r \<noteq> rideId) (rides st)\<rparr>))
      | Failed err \<Rightarrow> alert (AcceptFailed (str_or (err_data_message err) (err_message err))) st)"

definition handleDecline :: "string option \<Rightarrow> driver \<Rightarrow> driver" where
  "handleDecline rideId st = send (PatchDecline rideId (driverId st) (token st)) None st"

definition handleDecline_response :: "string option \<Rightarrow> unit outcome \<Rightarrow> driver \<Rightarrow> driver" where
  "handleDecline_response rideId res st =
     (case res of
        Ok _ \<Rightarrow> st\<lparr>rides := filter (\<lambda>r. ride_id r \<noteq> rideId) (rides st)\<rparr>
      | Failed err \<Rightarrow> alert (DeclineFailed (str_or (err_data_message err) (err_message err))) st)"

subsection \<open>The polling effect (source lines 186--214)\<close>

text \<open>The body of the effect on \<^verbatim>\<open>[isAvailable, pollInterval, token]\<close>, run with the
  functions of the render that was just committed, and its cleanup.\<close>

definition smartPolling :: "driver \<Rightarrow> driver" where
  "smartPolling st =
     (if \<not> isAvailable st then (if pollIntervalRef st \<noteq> None then stopPolling st else st)
      else startInterval (closure_of st) (pollInterval st)
             (fetchAvailableRides (closure_of st)
                (if pollIntervalRef st \<noteq> None then clearInterval (pollIntervalRef st) st else st)))"

definition smartPolling_cleanup :: "driver \<Rightarrow> driver" where
  "smartPolling_cleanup st = (if pollIntervalRef st \<noteq> None then stopPolling st else st)"

text \<open>A re-render after the state \<open>prev\<close> of the previous render: React runs the effect
  again only when one of the three dependencies changed, after the cleanup that the
  previous run returned; the run of an unavailable driver returns none.\<close>

definition rerender :: "driver \<Rightarrow> driver \<Rightarrow> driver" where
  "rerender prev st =
     (if isAvailable st = isAvailable prev \<and> pollInterval st = pollInterval prev \<and> token st = token prev
      then st
      else smartPolling (if isAvailable prev then smartPolling_cleanup st else st))"

text \<open>The interval timer with handle \<open>t\<close> fires.\<close>

definition driver_timerFired :: "nat \<Rightarrow> driver \<Rightarrow> driver" where
  "driver_timerFired t st =
     (case callback_of t st of None \<Rightarrow> st | Some cl \<Rightarrow> fetchAvailableRides cl st)"

definition handleLogout :: "driver \<Rightarrow> driver" where
  "handleLogout st =
     emit (Navigate ''/'')
       ((abortCurrent (if pollIntervalRef st \<noteq> None then clearInterval (pollIntervalRef st) st else st))
          \<lparr>token := None, driverId := None, driverName := None\<rparr>)"

section \<open>Concrete states and answers\<close>

text \<open>A rider whose booking \<open>b1\<close> was just created: the poller runs, one timer is live.\<close>

definition example_body :: booking_body where
  "example_body =
     \<lparr>startLocation = ''Colombo'', endLocation = ''Kandy'', b_distance = fl (1234 / 100),
      estimatedTime = 25, estimatedFare = 617, pickupCoords = Some centerSriLanka,
      dropoffCoords = Some (7, 80)\<rparr>"

definition example_created :: created where
  "example_created = \<lparr>bookingId = None, id_underscore = Some (IdStr ''b1''), id_plain = None\<rparr>"

definition example_closure :: poll_closure where
  "example_closure =
     \<lparr>pc_bookingId = IdStr ''b1'', pc_token = ''tok'', pc_currentPos = Some centerSriLanka\<rparr>"

definition polling_rider :: rider where
  "polling_rider = saveRoute_response example_body ''tok'' (Ok example_created) initial_rider"

definition accepted_data :: status_data where
  "accepted_data =
     \<lparr>sd_status = Some ''ACCEPTED'', sd_bookingStatus = None,
      sd_assignedDriver = Some \<lparr>dc_name = Some ''Dee'', dc_mobile = None\<rparr>, sd_driver = None\<rparr>"

definition no_id_created :: created where
  "no_id_created = \<lparr>bookingId = None, id_underscore = None, id_plain = None\<rparr>"

text \<open>A route of 12.34 km and 25 minutes, and a rider who has it as the estimate; routes
  of 1005 m, of 125 m, of a negative length and of \<open>2^60\<close> m, and the rider who has the
  estimate of a route; the rider whose submission of the first route is in flight.\<close>

definition example_route :: osrm_route where
  "example_route = \<lparr>rt_distance = 12340, rt_duration = 1500, rt_geometry = None\<rparr>"

definition routed_rider :: rider where
  "routed_rider =
     calculateRoute_response (Ok (Some [example_route]))
       (initial_rider\<lparr>currentPos := Some centerSriLanka, destination := Some (7, 80)\<rparr>)"

definition short_route :: osrm_route where
  "short_route = \<lparr>rt_distance = 1005, rt_duration = 61, rt_geometry = None\<rparr>"

definition tie_route :: osrm_route where
  "tie_route = \<lparr>rt_distance = 125, rt_duration = 30, rt_geometry = None\<rparr>"

definition negative_route :: osrm_route where
  "negative_route = \<lparr>rt_distance = - 1234, rt_duration = 60, rt_geometry = None\<rparr>"

definition far_route :: osrm_route where
  "far_route = \<lparr>rt_distance = 2 ^ 60, rt_duration = 60, rt_geometry = None\<rparr>"

definition rider_on :: "osrm_route \<Rightarrow> rider" where
  "rider_on route =
     calculateRoute_response (Ok (Some [route]))
       (initial_rider\<lparr>currentPos := Some centerSriLanka, destination := Some (7, 80)\<rparr>)"

definition submitting_rider :: rider where
  "submitting_rider = saveRoute (Some ''tok'') routed_rider"

text \<open>A driver before and after going online, two rides, and a cancellation error.\<close>

definition offline_driver :: driver where
  "offline_driver = (initial_driver (Some ''tok'') (Some ''d1'') (Some ''Dee''))\<lparr>loading := False\<rparr>"

definition online_driver :: driver where
  "online_driver = offline_driver\<lparr>isAvailable := True, status := ''AVAILABLE''\<rparr>"

definition example_rides :: "ride list" where
  "example_rides =
     [\<lparr>ride_id = Some ''r1'', ride_details = ''Colombo - Kandy''\<rparr>,
      \<lparr>ride_id = Some ''r2'', ride_details = ''Galle - Matara''\<rparr>]"

definition cancel_error :: http_error where
  "cancel_error =
     \<lparr>err_code = Some ''ERR_CANCELED'', err_isCancel = True, err_status = None,
      err_data_message = None, err_message = ''canceled''\<rparr>"

text \<open>The answer 404 of the status endpoint, and a booking as the fallback endpoint
  answers it.\<close>

definition not_found_error :: http_error where
  "not_found_error =
     \<lparr>err_code = Some ''ERR_BAD_REQUEST'', err_isCancel = False, err_status = Some 404,
      err_data_message = None, err_message = ''Request failed with status code 404''\<rparr>"

definition pending_booking :: booking_data where
  "pending_booking = \<lparr>bd_status = Some ''PENDING'', bd_driverName = None, bd_driverPhone = None\<rparr>"

section \<open>Auxiliary facts\<close>

lemma search_queries_append:
  "search_queries (xs @ ys) = search_queries xs @ search_queries ys"
  by (induction xs rule: search_queries.induct) simp_all

lemma requests_append: "requests (xs @ ys) = requests xs @ requests ys"
  by (induction xs rule: requests.induct) simp_all

lemmas screen_defs = alert_def emit_def send_def setPollStatus_def clearInterval_def
  startInterval_def abortCurrent_def newController_def stopPolling_def callback_of_def

lemmas rider_defs = mapReady_def mapSetView_def geolocationSuccess_def geolocationError_def
  startNameEffect_def startNameResolved_def endNameEffect_def endNameResolved_def
  routeEffect_def calculateRoute_response_def searchEffect_def searchCleanup_def typed_def
  searchTimerFired_def search_response_def selectPlace_def handleRefresh_def refreshClicked_def
  poll_def pollBookingStatus_def timerFired_def poll_response_def poll_fallback_response_def
  saveRoute_def saveRoute_response_def

lemmas driver_defs = closure_of_def fetchDriverProfile_def fetchDriverProfile_response_def
  fetchAvailableRides_def fetchAvailableRides_response_def toggleAvailability_def
  toggleAvailability_response_def toggleAvailability_resume_def handleAccept_def
  handleAccept_response_def handleDecline_def handleDecline_response_def smartPolling_def
  smartPolling_cleanup_def rerender_def driver_timerFired_def handleLogout_def

lemmas example_defs = example_body_def example_created_def example_closure_def
  polling_rider_def accepted_data_def no_id_created_def example_route_def routed_rider_def
  short_route_def tie_route_def negative_route_def far_route_def rider_on_def
  submitting_rider_def offline_driver_def online_driver_def example_rides_def
  cancel_error_def not_found_error_def pending_booking_def
  initial_rider_def initial_driver_def centerSriLanka_def

subsection \<open>Doubles: exponent, rounding, error bounds\<close>

lemma pow2_pos: "0 < (2::rat) powi e"
  by simp

lemma pow2_mono: "a \<le> b \<Longrightarrow> (2::rat) powi a \<le> 2 powi b"
  by (rule power_int_increasing) simp_all

lemma pow2_less_cancel: "(2::rat) powi a < 2 powi b \<Longrightarrow> a < b"
  using pow2_mono[of b a] by (cases "a < b") auto

lemma pow2_add: "(2::rat) powi (a + b) = 2 powi a * 2 powi b"
  by (simp add: power_int_add)

lemma pow2_nat: "0 \<le> e \<Longrightarrow> (2::rat) powi e = of_int (2 ^ nat e)"
  by (simp add: power_int_nonneg_exp)

lemma ilog2_ge1:
  assumes "1 \<le> x"
  shows "2 powi (ilog2 x) \<le> x \<and> x < 2 powi (ilog2 x + 1)"
proof -
  define n where "n = \<lfloor>x\<rfloor>"
  have n: "0 < n" "of_int n \<le> x" "x < of_int n + 1"
    using assms by (auto simp: n_def) linarith+
  have b: "2 ^ nat (bitlen n - 1) \<le> n" "n < 2 ^ nat (bitlen n)"
    using bitlen_bounds[OF n(1)] by auto
  have b1: "1 \<le> bitlen n"
    using n(1) by (simp add: bitlen_alt_def)
  have i: "ilog2 x = bitlen n - 1"
    using assms by (simp add: ilog2_def n_def)
  have "2 powi (bitlen n - 1) = rat_of_int (2 ^ nat (bitlen n - 1))"
    using b1 by (simp add: pow2_nat)
  also have "\<dots> \<le> of_int n"
    using b(1) by (simp only: of_int_le_iff)
  finally have lo: "2 powi (bitlen n - 1) \<le> x"
    using n(2) by linarith
  have "n + 1 \<le> 2 ^ nat (bitlen n)"
    using b(2) by linarith
  then have "rat_of_int (n + 1) \<le> rat_of_int (2 ^ nat (bitlen n))"
    by (simp only: of_int_le_iff)
  moreover have "2 powi (bitlen n) = rat_of_int (2 ^ nat (bitlen n))"
    using b1 by (simp add: pow2_nat)
  ultimately have hi: "x < 2 powi (bitlen n)"
    using n(3) by simp
  show ?thesis
    using lo hi by (simp add: i)
qed

lemma ilog2_lt1:
  assumes "0 < x" "x < 1"
  shows "2 powi (ilog2 x) \<le> x \<and> x < 2 powi (ilog2 x + 1)"
proof -
  define y where "y = 1 / x"
  define n where "n = \<lceil>y\<rceil>"
  have y: "1 < y" "0 < y" "x = 1 / y"
    using assms by (auto simp: y_def)
  have n: "0 < n - 1" "of_int (n - 1) < y" "y \<le> of_int n"
    using y(1) by (auto simp: n_def) linarith+
  define c where "c = bitlen (n - 1)"
  have b: "2 ^ nat (c - 1) \<le> n - 1" "n - 1 < 2 ^ nat c"
    using bitlen_bounds[OF n(1)] by (auto simp: c_def)
  have c1: "1 \<le> c"
    using n(1) by (simp add: bitlen_alt_def c_def)
  have i: "ilog2 x = - c"
    using assms by (simp add: ilog2_def n_def y_def c_def)
  have "n \<le> 2 ^ nat c"
    using b(2) by linarith
  then have "rat_of_int n \<le> rat_of_int (2 ^ nat c)"
    by (simp only: of_int_le_iff)
  moreover have "2 powi c = rat_of_int (2 ^ nat c)"
    using c1 by (simp add: pow2_nat)
  ultimately have yc: "y \<le> 2 powi c"
    using n(3) by linarith
  have "rat_of_int (2 ^ nat (c - 1)) \<le> rat_of_int (n - 1)"
    using b(1) by (simp only: of_int_le_iff)
  moreover have "2 powi (c - 1) = rat_of_int (2 ^ nat (c - 1))"
    using c1 by (simp add: pow2_nat)
  ultimately have cy: "2 powi (c - 1) < y"
    using n(2) by linarith
  have lo: "2 powi (- c) \<le> x"
  proof -
    have "1 / 2 powi c \<le> 1 / y"
      using yc y(2) by (simp add: frac_le)
    then show ?thesis
      by (simp add: y(3) power_int_minus_divide)
  qed
  have hi: "x < 2 powi (- c + 1)"
  proof -
    have "1 / y < 1 / 2 powi (c - 1)"
      using cy pow2_pos[of "c - 1"] by (simp add: frac_less2)
    moreover have "(2::rat) powi (- c + 1) = 1 / 2 powi (c - 1)"
      using power_int_minus_divide[of "2::rat" "c - 1"] by simp
    ultimately show ?thesis
      by (simp add: y(3))
  qed
  show ?thesis
    using lo hi by (simp add: i)
qed

lemma ilog2_bounds:
  assumes "0 < x"
  shows "2 powi (ilog2 x) \<le> x" and "x < 2 powi (ilog2 x + 1)"
  using ilog2_ge1[of x] ilog2_lt1[of x] assms by (cases "1 \<le> x"; simp)+

lemma ilog2_less:
  assumes "0 < x" "x < 2 powi e"
  shows "ilog2 x < e"
proof -
  have "2 powi (ilog2 x) < (2::rat) powi e"
    using ilog2_bounds(1)[OF assms(1)] assms(2) by linarith
  then show ?thesis by (rule pow2_less_cancel)
qed

lemma ilog2_ge:
  assumes "0 < x" "2 powi e \<le> x"
  shows "e \<le> ilog2 x"
proof -
  have "2 powi e < (2::rat) powi (ilog2 x + 1)"
    using ilog2_bounds(2)[OF assms(1)] assms(2) by linarith
  then have "e < ilog2 x + 1" by (rule pow2_less_cancel)
  then show ?thesis by simp
qed

lemma rne_error: "\<bar>rat_of_int (rne y) - y\<bar> \<le> 1 / 2"
proof -
  define f where "f = \<lfloor>y\<rfloor>"
  define r where "r = y - of_int f"
  have r: "0 \<le> r" "r < 1"
    unfolding r_def f_def by linarith+
  consider "r < 1 / 2" | "1 / 2 < r" | "r = 1 / 2"
    by linarith
  then show ?thesis
  proof cases
    case 1
    then have "rne y = f"
      by (simp add: rne_def Let_def f_def r_def)
    then show ?thesis using 1 r by (simp add: r_def abs_if; linarith?)
  next
    case 2
    then have "rne y = f + 1"
      by (simp add: rne_def Let_def f_def r_def)
    then show ?thesis using 2 r by (simp add: r_def abs_if; linarith?)
  next
    case 3
    then have "rne y = f \<or> rne y = f + 1"
      by (simp add: rne_def Let_def f_def r_def)
    then show ?thesis using 3 by (auto simp: r_def abs_if; linarith?)
  qed
qed

lemma rne_of_int: "rne (of_int n) = n"
  by (simp add: rne_def)

lemma rne_nonneg: "0 \<le> y \<Longrightarrow> 0 \<le> rne y"
  unfolding rne_def Let_def by (auto split: if_splits)

lemma fl_zero: "fl 0 = 0"
  by (simp add: fl_def)

lemma fl_nonneg:
  assumes "0 \<le> x"
  shows "0 \<le> fl x"
proof (cases "x = 0")
  case True
  then show ?thesis by (simp add: fl_def)
next
  case False
  define e where "e = max (ilog2 \<bar>x\<bar> - 52) (- 1074)"
  have "0 \<le> x / 2 powi e"
    using assms pow2_pos[of e] by simp
  then have "0 \<le> rne (x / 2 powi e)"
    by (rule rne_nonneg)
  then have "0 \<le> rat_of_int (rne (x / 2 powi e)) * 2 powi e"
    using pow2_pos[of e] by simp
  then show ?thesis
    using False by (simp add: fl_def e_def Let_def)
qed

text \<open>A number with a significand below \<open>2^53\<close> and an exponent in range is a double.\<close>

lemma fl_exact:
  assumes "\<bar>m\<bar> < 2 ^ 53" and "- 1074 \<le> e"
  shows "fl (of_int m * 2 powi e) = of_int m * 2 powi e"
proof (cases "m = 0")
  case True
  then show ?thesis by (simp add: fl_def)
next
  case False
  define x where "x = rat_of_int m * 2 powi e"
  define E where "E = max (ilog2 \<bar>x\<bar> - 52) (- 1074)"
  have x0: "x \<noteq> 0" "0 < \<bar>x\<bar>"
    using False pow2_pos[of e] by (auto simp: x_def)
  have "\<bar>x\<bar> = rat_of_int \<bar>m\<bar> * 2 powi e"
    using pow2_pos[of e] by (simp add: x_def abs_mult)
  moreover have "rat_of_int \<bar>m\<bar> < rat_of_int (2 ^ 53)"
    using assms(1) by (simp only: of_int_less_iff)
  ultimately have "\<bar>x\<bar> < 2 powi 53 * 2 powi e"
    using pow2_pos[of e] by simp
  then have "\<bar>x\<bar> < 2 powi (53 + e)"
    by (simp add: pow2_add)
  then have "ilog2 \<bar>x\<bar> < 53 + e"
    using x0(2) by (rule ilog2_less[rotated])
  then have Ee: "E \<le> e"
    using assms(2) by (simp add: E_def)
  have "x / 2 powi E = rat_of_int m * 2 powi (e - E)"
    using pow2_pos[of E] by (simp add: x_def power_int_diff)
  also have "\<dots> = rat_of_int (m * 2 ^ nat (e - E))"
    using Ee by (simp add: pow2_nat)
  finally have q: "x / 2 powi E = rat_of_int (m * 2 ^ nat (e - E))" .
  have "rat_of_int (rne (x / 2 powi E)) * 2 powi E = x / 2 powi E * 2 powi E"
    by (simp only: q rne_of_int)
  also have "\<dots> = x"
    using pow2_pos[of E] by simp
  finally show ?thesis
    using x0(1) by (simp add: fl_def E_def[symmetric] x_def[symmetric] Let_def)
qed

lemma fl_error_general: "\<bar>fl x - x\<bar> \<le> \<bar>x\<bar> * 2 powi (- 53) + 2 powi (- 1075)"
proof (cases "x = 0")
  case True
  have "0 < (2::rat) powi (- 1075)" by (rule pow2_pos)
  then show ?thesis using True by (simp only: fl_zero)
next
  case False
  define E where "E = max (ilog2 \<bar>x\<bar> - 52) (- 1074)"
  define y where "y = x / 2 powi E"
  define u where "u = (2::rat) powi (- 53)"
  define t where "t = (2::rat) powi (- 1075)"
  have pos: "0 < u" "0 < t"
    by (simp_all only: u_def t_def pow2_pos)
  have f: "fl x = rat_of_int (rne y) * 2 powi E"
    using False by (simp add: fl_def E_def y_def Let_def)
  have xy: "x = y * 2 powi E"
    using pow2_pos[of E] by (simp add: y_def)
  have "fl x - x = (rat_of_int (rne y) - y) * 2 powi E"
    by (simp add: f xy[symmetric] algebra_simps)
  then have "\<bar>fl x - x\<bar> = \<bar>rat_of_int (rne y) - y\<bar> * 2 powi E"
    using pow2_pos[of E] by (simp add: abs_mult)
  also have "\<dots> \<le> 1 / 2 * 2 powi E"
    using rne_error[of y] pow2_pos[of E] by (simp add: mult_right_mono)
  also have "\<dots> = 2 powi (E - 1)"
    by (simp add: power_int_diff)
  finally have err: "\<bar>fl x - x\<bar> \<le> 2 powi (E - 1)" .
  have xu: "0 \<le> \<bar>x\<bar> * u"
    using pos(1) by simp
  have "\<bar>fl x - x\<bar> \<le> \<bar>x\<bar> * u + t"
  proof (cases "- 1074 \<le> ilog2 \<bar>x\<bar> - 52")
    case True
    then have "E - 1 = ilog2 \<bar>x\<bar> + (- 53)"
      by (simp add: E_def)
    then have "(2::rat) powi (E - 1) = 2 powi (ilog2 \<bar>x\<bar>) * u"
      by (simp only: pow2_add u_def)
    also have "\<dots> \<le> \<bar>x\<bar> * u"
      using ilog2_bounds(1)[of "\<bar>x\<bar>"] False pos(1)
      by (simp add: mult_right_mono)
    finally show ?thesis
      using err pos(2) by linarith
  next
    case False
    then have "E - 1 = - 1075"
      by (simp add: E_def)
    then have "(2::rat) powi (E - 1) = t"
      by (simp only: t_def)
    then show ?thesis
      using err xu by linarith
  qed
  then show ?thesis
    by (simp only: u_def t_def)
qed

lemma fl_error:
  assumes "2 powi (- 1022) \<le> \<bar>x\<bar>"
  shows "\<bar>fl x - x\<bar> \<le> \<bar>x\<bar> * 2 powi (- 53)"
proof -
  have x0: "x \<noteq> 0" "0 < \<bar>x\<bar>"
    using assms pow2_pos[of "- 1022"] by auto
  define E where "E = max (ilog2 \<bar>x\<bar> - 52) (- 1074)"
  define y where "y = x / 2 powi E"
  have "- 1022 \<le> ilog2 \<bar>x\<bar>"
    using x0(2) assms by (rule ilog2_ge)
  then have E: "E - 1 = ilog2 \<bar>x\<bar> + (- 53)"
    by (simp add: E_def)
  have f: "fl x = rat_of_int (rne y) * 2 powi E"
    using x0(1) by (simp add: fl_def E_def y_def Let_def)
  have xy: "x = y * 2 powi E"
    using pow2_pos[of E] by (simp add: y_def)
  have "fl x - x = (rat_of_int (rne y) - y) * 2 powi E"
    by (simp add: f xy[symmetric] algebra_simps)
  then have "\<bar>fl x - x\<bar> = \<bar>rat_of_int (rne y) - y\<bar> * 2 powi E"
    using pow2_pos[of E] by (simp add: abs_mult)
  also have "\<dots> \<le> 1 / 2 * 2 powi E"
    using rne_error[of y] pow2_pos[of E] by (simp add: mult_right_mono)
  also have "\<dots> = 2 powi (E - 1)"
    by (simp add: power_int_diff)
  also have "\<dots> = 2 powi (ilog2 \<bar>x\<bar>) * 2 powi (- 53)"
    by (simp only: E pow2_add)
  also have "\<dots> \<le> \<bar>x\<bar> * 2 powi (- 53)"
    using ilog2_bounds(1)[of "\<bar>x\<bar>"] x0(2) pow2_pos[of "- 53"]
    by (simp add: mult_right_mono)
  finally show ?thesis .
qed

lemma hundredths_error: "\<bar>rat_of_int (hundredths x) - x * 100\<bar> \<le> 1 / 2"
proof (cases "x < 0")
  case True
  define z where "z = (- x) * 100 + 1 / 2"
  have h: "rat_of_int (hundredths x) = - rat_of_int \<lfloor>z\<rfloor>"
    using True by (simp add: hundredths_def z_def)
  have "rat_of_int \<lfloor>z\<rfloor> \<le> z" "z < rat_of_int \<lfloor>z\<rfloor> + 1"
    by linarith+
  then show ?thesis
    unfolding h z_def by linarith
next
  case False
  define z where "z = x * 100 + 1 / 2"
  have h: "rat_of_int (hundredths x) = rat_of_int \<lfloor>z\<rfloor>"
    using False by (simp add: hundredths_def z_def)
  have "rat_of_int \<lfloor>z\<rfloor> \<le> z" "z < rat_of_int \<lfloor>z\<rfloor> + 1"
    by linarith+
  then show ?thesis
    unfolding h z_def by linarith
qed

lemma hundredths_nonneg: "0 \<le> x \<Longrightarrow> 0 \<le> hundredths x"
  unfolding hundredths_def by (simp add: not_less) 

lemma hundredths_unique:
  assumes "\<bar>x * 100 - rat_of_int n\<bar> < 1 / 2"
  shows "hundredths x = n"
proof (cases "x < 0")
  case True
  have m: "rat_of_int (- n) = - rat_of_int n"
    by simp
  have "rat_of_int (- n) \<le> (- x) * 100 + 1 / 2" "(- x) * 100 + 1 / 2 < rat_of_int (- n) + 1"
    unfolding m using assms by linarith+
  then have "\<lfloor>(- x) * 100 + 1 / 2\<rfloor> = - n"
    by (rule floor_unique)
  then show ?thesis using True by (simp add: hundredths_def)
next
  case False
  have "\<lfloor>x * 100 + 1 / 2\<rfloor> = n"
    using assms by (intro floor_unique) linarith+
  then show ?thesis using False by (simp add: hundredths_def)
qed

lemma toFixed2_error: "\<bar>toFixed2 x - x\<bar> \<le> 1 / 200"
  using hundredths_error[of x] by (simp add: toFixed2_def field_simps)

lemma pow2_m53: "(2::rat) powi (- 53) = 1 / 2 ^ 53"
  by (simp add: power_int_minus_divide)

lemma tiny_le: "(2::rat) powi (- 1075) \<le> 1 / 2 ^ 53"
  using pow2_mono[of "- 1075" "- 53"] by (simp only: pow2_m53)

lemma normal_ge: "1 / 128 \<le> x \<Longrightarrow> (2::rat) powi (- 1022) \<le> x"
proof -
  assume "1 / 128 \<le> x"
  moreover have "(2::rat) powi (- 1022) \<le> 2 powi (- 7)"
    by (rule pow2_mono) simp
  moreover have "(2::rat) powi (- 7) = 1 / 128"
    by (simp add: power_int_minus_divide)
  ultimately show ?thesis by linarith
qed

text \<open>Multiplying a stored distance by 50 and writing the product with two decimals
  gives the exact product of the two-decimal distance and 50.\<close>

lemma fare_exact:
  assumes "\<bar>k\<bar> \<le> 2 ^ 44"
  shows "toFixed2 (fl (fl (of_int k / 100) * 50)) = of_int k / 2"
proof (cases "k = 0")
  case True
  have "hundredths 0 = 0"
    by (rule hundredths_unique) simp
  then show ?thesis
    using True by (simp add: fl_zero toFixed2_def)
next
  case False
  define y where "y = rat_of_int k / 100"
  define u where "u = (2::rat) powi (- 53)"
  define a where "a = \<bar>y\<bar> * u"
  define D where "D = fl y"
  define P where "P = fl (D * 50)"
  have u: "0 < u" "u = 1 / 2 ^ 53" "u \<le> 1"
    by (simp_all add: u_def pow2_m53)
  have k1: "1 \<le> \<bar>rat_of_int k\<bar>"
    using False by (simp flip: of_int_abs)
  have kb: "\<bar>rat_of_int k\<bar> \<le> 2 ^ 44"
    using assms by (simp flip: of_int_abs)
  have y1: "1 / 100 \<le> \<bar>y\<bar>" "\<bar>y\<bar> * 100 = \<bar>rat_of_int k\<bar>"
    using k1 by (simp_all add: y_def)
  have a0: "0 \<le> a" "a * u \<le> a"
    using u(1,3) by (simp_all add: a_def mult_left_le)
  have "2 powi (- 1022) \<le> \<bar>y\<bar>"
    using y1(1) by (intro normal_ge) linarith
  then have eD: "\<bar>D - y\<bar> \<le> a"
    unfolding D_def a_def u_def by (rule fl_error)
  have "u \<le> 1 / 2"
    by (simp add: u(2))
  then have "\<bar>y\<bar> * u \<le> \<bar>y\<bar> * (1 / 2)"
    by (intro mult_left_mono) simp_all
  then have ya: "\<bar>y\<bar> * u \<le> \<bar>y\<bar> / 2"
    by simp
  have xlow: "1 / 4 \<le> \<bar>D * 50\<bar>"
    using eD ya y1(1) by (simp add: a_def; linarith?)
  have xup: "\<bar>D * 50\<bar> \<le> 50 * \<bar>y\<bar> + 50 * a"
    using eD by (simp add: abs_mult; linarith?)
  have "2 powi (- 1022) \<le> \<bar>D * 50\<bar>"
    using xlow by (intro normal_ge) linarith
  then have "\<bar>P - D * 50\<bar> \<le> \<bar>D * 50\<bar> * u"
    unfolding P_def u_def by (rule fl_error)
  also have "\<dots> \<le> (50 * \<bar>y\<bar> + 50 * a) * u"
    using xup u(1) by (simp add: mult_right_mono)
  also have "\<dots> = 50 * a + 50 * (a * u)"
    by (simp add: a_def algebra_simps)
  also have "\<dots> \<le> 100 * a"
    using a0(2) by linarith
  finally have eP: "\<bar>P - D * 50\<bar> \<le> 100 * a" .
  have tot: "\<bar>P - y * 50\<bar> \<le> 150 * a"
    using eP eD by linarith
  have "a * 100 = \<bar>rat_of_int k\<bar> * u"
    using y1(2) by (simp add: a_def algebra_simps)
  also have "\<dots> \<le> 2 ^ 44 * u"
    using kb u(1) by (simp add: mult_right_mono)
  also have "\<dots> = 1 / 512"
    by (simp add: u(2))
  finally have ab: "a * 100 \<le> 1 / 512" .
  have "P * 100 - rat_of_int (k * 50) = (P - y * 50) * 100"
    by (simp add: y_def algebra_simps)
  then have "\<bar>P * 100 - rat_of_int (k * 50)\<bar> = \<bar>P - y * 50\<bar> * 100"
    by (simp only: abs_mult)
  also have "\<dots> \<le> 150 * a * 100"
    using tot by (intro mult_right_mono) simp_all
  also have "\<dots> = 150 * (a * 100)"
    by simp
  also have "\<dots> \<le> 150 * (1 / 512)"
    using ab by (intro mult_left_mono) simp_all
  also have "\<dots> < 1 / 2"
    by simp
  finally have close: "\<bar>P * 100 - rat_of_int (k * 50)\<bar> < 1 / 2" .
  have "\<bar>y * 50\<bar> = \<bar>rat_of_int k\<bar> / 2"
    by (simp add: y_def abs_mult)
  then have "\<bar>P\<bar> \<le> 2 ^ 44 / 2 + 150 * a"
    using tot kb by linarith
  moreover have "150 * a \<le> 1"
    using ab a0(1) by linarith
  moreover have "(2::rat) ^ 44 / 2 + 1 < 10 ^ 21"
    by simp
  ultimately have Pb: "\<bar>P\<bar> < 10 ^ 21"
    by linarith
  have "hundredths P = k * 50"
    using close by (rule hundredths_unique)
  then have "toFixed2 P = rat_of_int (k * 50) / 100"
    using Pb by (simp add: toFixed2_def)
  then show ?thesis
    by (simp add: P_def D_def y_def)
qed

lemma fl_half_int:
  assumes "\<bar>k\<bar> \<le> 2 ^ 44"
  shows "fl (rat_of_int k / 2) = rat_of_int k / 2"
proof -
  have "(2::int) ^ 44 < 2 ^ 53" by simp
  then have "\<bar>k\<bar> < 2 ^ 53" using assms by linarith
  then have "fl (rat_of_int k * 2 powi (- 1)) = rat_of_int k * 2 powi (- 1)"
    by (rule fl_exact) simp
  then show ?thesis by (simp add: field_simps)
qed

lemma hundredths_tie:
  assumes "\<bar>rat_of_int (hundredths x) - x * 100\<bar> = 1 / 2"
  shows "\<bar>x * 100\<bar> < \<bar>rat_of_int (hundredths x)\<bar>"
proof (cases "x < 0")
  case True
  define z where "z = (- x) * 100 + 1 / 2"
  have h: "rat_of_int (hundredths x) = - rat_of_int \<lfloor>z\<rfloor>"
    using True by (simp add: hundredths_def z_def)
  have "rat_of_int \<lfloor>z\<rfloor> \<le> z" "z < rat_of_int \<lfloor>z\<rfloor> + 1"
    by linarith+
  then show ?thesis
    using assms True unfolding h z_def by linarith
next
  case False
  define z where "z = x * 100 + 1 / 2"
  have h: "rat_of_int (hundredths x) = rat_of_int \<lfloor>z\<rfloor>"
    using False by (simp add: hundredths_def z_def)
  have "rat_of_int \<lfloor>z\<rfloor> \<le> z" "z < rat_of_int \<lfloor>z\<rfloor> + 1"
    by linarith+
  then show ?thesis
    using assms False unfolding h z_def by linarith
qed

lemma toFixed2_tie:
  assumes "\<bar>toFixed2 x - x\<bar> = 1 / 200"
  shows "\<bar>x\<bar> < \<bar>toFixed2 x\<bar>"
proof (cases "10 ^ 21 \<le> \<bar>x\<bar>")
  case True
  then show ?thesis using assms by (simp add: toFixed2_def)
next
  case False
  then have t: "toFixed2 x = rat_of_int (hundredths x) / 100"
    by (simp add: toFixed2_def)
  have "\<bar>rat_of_int (hundredths x) - x * 100\<bar> = \<bar>toFixed2 x - x\<bar> * 100"
    unfolding t by (simp add: abs_if field_simps)
  then have "\<bar>rat_of_int (hundredths x) - x * 100\<bar> = 1 / 2"
    using assms by simp
  then have "\<bar>x * 100\<bar> < \<bar>rat_of_int (hundredths x)\<bar>"
    by (rule hundredths_tie)
  then show ?thesis
    unfolding t by (simp add: abs_mult)
qed

text \<open>A double from \<open>2^53\<close> on is a whole number, so every \<open>toFixed2\<close> of a double is a
  number of hundredths.\<close>

lemma fl_large_int:
  assumes "2 ^ 53 \<le> \<bar>fl x\<bar>"
  shows "fl x \<in> \<int>"
proof -
  have x0: "x \<noteq> 0"
    using assms by (auto simp: fl_def)
  define E where "E = max (ilog2 \<bar>x\<bar> - 52) (- 1074)"
  define r where "r = rne (x / 2 powi E)"
  have f: "fl x = rat_of_int r * 2 powi E"
    using x0 by (simp add: fl_def E_def r_def Let_def)
  show ?thesis
  proof (cases "0 \<le> E")
    case True
    then have "fl x = rat_of_int (r * 2 ^ nat E)"
      by (simp add: f pow2_nat)
    then show ?thesis
      by (simp only: Ints_of_int)
  next
    case False
    have "\<bar>x\<bar> < 2 powi (ilog2 \<bar>x\<bar> + 1)"
      using x0 by (intro ilog2_bounds) simp
    also have "\<dots> \<le> 2 powi (E + 53)"
      by (rule pow2_mono) (simp add: E_def)
    also have "\<dots> = 2 powi E * 2 ^ 53"
      by (simp add: pow2_add)
    finally have "\<bar>x\<bar> / 2 powi E < 2 ^ 53"
      using pow2_pos[of E] by (simp add: field_simps)
    then have q: "\<bar>x / 2 powi E\<bar> < 2 ^ 53"
      using pow2_pos[of E] by simp
    have "\<bar>rat_of_int r - x / 2 powi E\<bar> \<le> 1 / 2"
      unfolding r_def by (rule rne_error)
    then have "\<bar>rat_of_int r\<bar> < 2 ^ 53 + 1"
      using q by linarith
    then have "rat_of_int \<bar>r\<bar> < rat_of_int (2 ^ 53 + 1)"
      by simp
    then have "\<bar>r\<bar> < 2 ^ 53 + 1"
      by (simp only: of_int_less_iff)
    then have "rat_of_int \<bar>r\<bar> \<le> 2 ^ 53"
      by simp
    then have rb: "\<bar>rat_of_int r\<bar> \<le> 2 ^ 53"
      by simp
    have "(2::rat) powi E \<le> 2 powi (- 1)"
      using False by (intro pow2_mono) simp
    then have Eb: "(2::rat) powi E \<le> 1 / 2"
      by simp
    have "\<bar>fl x\<bar> = \<bar>rat_of_int r\<bar> * 2 powi E"
      using pow2_pos[of E] by (simp add: f abs_mult)
    also have "\<dots> \<le> 2 ^ 53 * 2 powi E"
      using rb pow2_pos[of E] by (intro mult_right_mono) simp_all
    also have "\<dots> \<le> 2 ^ 53 * (1 / 2)"
      using Eb by (intro mult_left_mono) simp_all
    also have "\<dots> < 2 ^ 53"
      by simp
    finally show ?thesis
      using assms by simp
  qed
qed

lemma toFixed2_fl_hundredths: "toFixed2 (fl x) * 100 \<in> \<int>"
proof (cases "10 ^ 21 \<le> \<bar>fl x\<bar>")
  case True
  have "(2::rat) ^ 53 \<le> 10 ^ 21"
    by simp
  then have "2 ^ 53 \<le> \<bar>fl x\<bar>"
    using True by linarith
  then have "fl x \<in> \<int>"
    by (rule fl_large_int)
  then have "fl x * 100 \<in> \<int>"
    by (intro Ints_mult) simp_all
  then show ?thesis
    using True by (simp add: toFixed2_def)
next
  case False
  then show ?thesis
    by (simp add: toFixed2_def)
qed

text \<open>The quotient of a distance within \<open>10^13\<close> m, and its hundredths.\<close>

lemma km_bounds:
  assumes "\<bar>d\<bar> \<le> 10 ^ 13"
  shows "\<bar>fl (d / 1000) - d / 1000\<bar> \<le> 1 / 100000"
    and "\<bar>fl (d / 1000)\<bar> < 10 ^ 21"
    and "\<bar>hundredths (fl (d / 1000))\<bar> \<le> 2 ^ 44"
proof -
  define x where "x = d / 1000"
  define u where "u = (2::rat) powi (- 53)"
  define t where "t = (2::rat) powi (- 1075)"
  have xb: "\<bar>x\<bar> \<le> 10000000000"
    using assms by (simp add: x_def)
  have u: "0 < u" "u = 1 / 2 ^ 53"
    by (simp_all add: u_def pow2_m53)
  have t: "t \<le> 1 / 2 ^ 53"
    unfolding t_def by (rule tiny_le)
  have "\<bar>fl x - x\<bar> \<le> \<bar>x\<bar> * u + t"
    unfolding u_def t_def by (rule fl_error_general)
  also have "\<bar>x\<bar> * u \<le> 10000000000 * u"
    using xb u(1) by (intro mult_right_mono) simp_all
  also have "10000000000 * u + t \<le> 1 / 100000"
    using t by (simp add: u(2))
  finally show e: "\<bar>fl x - x\<bar> \<le> 1 / 100000"
    by simp
  then have f: "\<bar>fl x\<bar> \<le> 10000000001"
    using xb by linarith
  then show "\<bar>fl x\<bar> < 10 ^ 21"
    by simp
  have "\<bar>rat_of_int (hundredths (fl x)) - fl x * 100\<bar> \<le> 1 / 2"
    by (rule hundredths_error)
  then have "\<bar>rat_of_int (hundredths (fl x))\<bar> \<le> 1000000000101"
    using f by linarith
  then have "\<bar>rat_of_int (hundredths (fl x))\<bar> \<le> 2 ^ 44"
    by simp
  then have "rat_of_int \<bar>hundredths (fl x)\<bar> \<le> rat_of_int (2 ^ 44)"
    by simp
  then show "\<bar>hundredths (fl x)\<bar> \<le> 2 ^ 44"
    by (simp only: of_int_le_iff)
qed

text \<open>For a whole number of meters within \<open>10^13\<close>, the hundredths of the double quotient are
  nearest to the exact quotient as well.\<close>

lemma whole_meters_nearest:
  assumes "\<bar>m\<bar> \<le> 10 ^ 13"
  shows "\<bar>rat_of_int (hundredths (fl (rat_of_int m / 1000))) / 100 - rat_of_int m / 1000\<bar> \<le> 1 / 200"
proof -
  define km where "km = fl (rat_of_int m / 1000)"
  define k where "k = hundredths km"
  have "\<bar>rat_of_int m\<bar> \<le> 10 ^ 13"
    using assms by (simp flip: of_int_abs)
  then have "\<bar>km - rat_of_int m / 1000\<bar> \<le> 1 / 100000"
    unfolding km_def by (rule km_bounds(1))
  moreover have "\<bar>rat_of_int k - km * 100\<bar> \<le> 1 / 2"
    unfolding k_def by (rule hundredths_error)
  ultimately have "\<bar>rat_of_int k * 10 - rat_of_int m\<bar> < 6"
    by linarith
  then have "\<bar>rat_of_int (k * 10 - m)\<bar> < rat_of_int 6"
    by simp
  then have "\<bar>k * 10 - m\<bar> < 6"
    by (simp only: of_int_less_iff flip: of_int_abs)
  then have "\<bar>k * 10 - m\<bar> \<le> 5"
    by simp
  then have "rat_of_int \<bar>k * 10 - m\<bar> \<le> rat_of_int 5"
    by (simp only: of_int_le_iff)
  then have "\<bar>rat_of_int k * 10 - rat_of_int m\<bar> \<le> 5"
    by simp
  then show ?thesis
    unfolding k_def[symmetric] km_def[symmetric] by linarith
qed

text \<open>The examples, evaluated.\<close>

lemma fl_12340: "hundredths (fl (617 / 50)) = 1234" "fl (617 / 50) \<noteq> 0" "\<lceil>fl 25\<rceil> = 25"
  by code_simp+

lemma fl_1005: "hundredths (fl (201 / 200)) = 100" "fl 1 = 1"
  by code_simp+

lemma fl_125: "fl (1 / 8) = 1 / 8" "hundredths (1 / 8) = 13"
  by code_simp+

lemma fl_negative:
  "hundredths (fl (- (617 / 500))) = - 123"
  "fl (- (123 / 100)) \<noteq> 0"
  "toFixed2 (fl (fl (- (123 / 100)) * 50)) = - (123 / 2)"
  "fl (- (123 / 2)) = - (123 / 2)"
  by code_simp+

lemma fl_far:
  "toFixed2 (fl (144115188075855872 / 125)) = 1152921504606847"
  "fl 1152921504606847 = 1152921504606847"
  "toFixed2 (fl 57646075230342350) = 57646075230342352"
  by code_simp+

lemma fl_61: "\<lceil>fl (61 / 60)\<rceil> = 2" "\<lceil>fl (1 / 2)\<rceil> = 1" "\<lceil>fl 1\<rceil> = 1"
  by code_simp+

lemma toFixed2_examples:
  "toFixed2 (fl (617 / 50)) = 617 / 50"
  "toFixed2 (fl (201 / 200)) = 1"
  "toFixed2 (1 / 8) = 13 / 100"
  "toFixed2 (fl (- (617 / 500))) = - (123 / 100)"
  by code_simp+

lemma rider_on_eq:
  "rt_geometry route = None \<Longrightarrow>
   rider_on route =
     initial_rider\<lparr>currentPos := Some centerSriLanka, destination := Some (7, 80),
        routeInfo := estimate route\<rparr>"
  by (simp add: rider_on_def calculateRoute_response_def Let_def)

lemma estimate_examples:
  "estimate example_route = \<lparr>distance = fl (1234 / 100), duration = 25\<rparr>"
  "estimate short_route = \<lparr>distance = 1, duration = 2\<rparr>"
  "estimate tie_route = \<lparr>distance = fl (13 / 100), duration = 1\<rparr>"
  "estimate negative_route = \<lparr>distance = fl (- (123 / 100)), duration = 1\<rparr>"
  "estimate far_route = \<lparr>distance = 1152921504606847, duration = 1\<rparr>"
  by (simp_all add: estimate_def example_route_def short_route_def tie_route_def
        negative_route_def far_route_def toFixed2_examples fl_12340 fl_1005 fl_125 fl_61 fl_far)

lemma routed_rider_eq:
  "routed_rider =
     initial_rider\<lparr>currentPos := Some centerSriLanka, destination := Some (7, 80),
        routeInfo := \<lparr>distance = fl (1234 / 100), duration = 25\<rparr>\<rparr>"
proof -
  have "routed_rider = rider_on example_route"
    by (simp add: routed_rider_def rider_on_def)
  also have "\<dots> = initial_rider\<lparr>currentPos := Some centerSriLanka, destination := Some (7, 80),
        routeInfo := estimate example_route\<rparr>"
    by (rule rider_on_eq) (simp add: example_route_def)
  finally show ?thesis
    by (simp only: estimate_examples)
qed

subsection \<open>Invariants of the rider screen\<close>

lemma timer_inv_step: "rider_trans st st' \<Longrightarrow> timer_inv st \<Longrightarrow> timer_inv st'"
  by (induction rule: rider_trans.induct)
     (auto simp: timer_inv_def screen_defs rider_defs status_of_def Let_def
           split: option.splits list.splits outcome.splits prod.splits if_splits)

lemma reachable_timer_inv: "reachable st \<Longrightarrow> timer_inv st"
  by (induction rule: reachable.induct)
     (simp add: timer_inv_def initial_rider_def, rule timer_inv_step)

lemma search_inv_step: "rider_trans st st' \<Longrightarrow> search_inv st \<Longrightarrow> search_inv st'"
proof (induction rule: rider_trans.induct)
  case (t_searchTimer st)
  then show ?case
    by (cases "searchTimer st")
       (auto simp: search_inv_def searchTimerFired_def send_def search_queries_append)
qed (simp_all add: search_inv_def search_queries_append screen_defs rider_defs Let_def
       split: option.split list.split outcome.split prod.split)

lemma reachable_search_inv: "reachable st \<Longrightarrow> search_inv st"
  by (induction rule: reachable.induct)
     (simp add: search_inv_def initial_rider_def, rule search_inv_step)

subsection \<open>The reset and the found sequence\<close>

lemma handleRefresh_eq:
  "handleRefresh cp st =
     (let s3 = st\<lparr>destination := None, searchQuery := [], suggestions := [],
                  routeInfo := \<lparr>distance = 0, duration = 0\<rparr>,
                  endName := ''Select destination'', bookingStatus := None,
                  pollStatus := ''idle'', pollIntervalRef := None,
                  intervals := filter (\<lambda>e. Some (fst e) \<noteq> pollIntervalRef st) (intervals st),
                  aborted := (case abortControllerRef st of None \<Rightarrow> aborted st
                              | Some c \<Rightarrow> c # aborted st),
                  trace := trace st @ [PollStatus ''idle'']\<rparr>
      in case cp of
           None \<Rightarrow> s3
         | Some p \<Rightarrow> if mapRef st then s3\<lparr>trace := trace s3 @ [MapSetView p 13]\<rparr> else s3)"
  by (cases "pollIntervalRef st"; cases "abortControllerRef st"; cases cp)
     (simp_all add: handleRefresh_def screen_defs mapSetView_def Let_def)

lemma status_signals_append:
  "status_signals (xs @ ys) = status_signals xs @ status_signals ys"
  by (induction xs rule: status_signals.induct) simp_all

lemma signal_inv_step: "rider_trans st st' \<Longrightarrow> signal_inv st \<Longrightarrow> signal_inv st'"
proof (induction rule: rider_trans.induct)
  case (t_timer st t)
  then show ?case
    by (auto simp: signal_inv_def list_all_iff status_signals_append timerFired_def poll_def
          screen_defs Let_def split: option.splits)
next
  case (t_saveResponse st body tok cres)
  then show ?case
    by (auto simp: signal_inv_def list_all_iff status_signals_append saveRoute_response_def
          pollBookingStatus_def poll_def screen_defs Let_def split: option.splits outcome.splits)
next
  case (t_pollResponse st cl pres)
  then show ?case
    by (auto simp: signal_inv_def list_all_iff status_signals_append poll_response_def
          handleRefresh_eq screen_defs Let_def split: option.splits outcome.splits)
next
  case (t_fallbackResponse st cl fres)
  then show ?case
    by (auto simp: signal_inv_def list_all_iff status_signals_append poll_fallback_response_def
          handleRefresh_eq screen_defs Let_def split: option.splits outcome.splits)
next
  case (t_refresh st)
  then show ?case
    by (auto simp: signal_inv_def list_all_iff status_signals_append refreshClicked_def
          handleRefresh_eq Let_def split: option.splits)
qed (simp_all add: signal_inv_def status_signals_append screen_defs rider_defs Let_def
       split: option.split list.split outcome.split prod.split)

lemma reachable_signal_inv: "reachable st \<Longrightarrow> signal_inv st"
  by (induction rule: reachable.induct)
     (simp add: signal_inv_def initial_rider_def, rule signal_inv_step)

lemma found_eq:
  assumes "status_of data = Some ''DRIVER_ASSIGNED'' \<or> status_of data = Some ''ACCEPTED''"
  shows "poll_response cl (Ok data) st =
           handleRefresh (pc_currentPos cl)
             (stopPolling
                (alert (DriverFound
                          (contact_name (js_or (\<lambda>d. d \<noteq> None) (sd_assignedDriver data) (sd_driver data)))
                          (contact_mobile (js_or (\<lambda>d. d \<noteq> None) (sd_assignedDriver data) (sd_driver data))))
                   (setPollStatus ''found'' (st\<lparr>bookingStatus := status_of data\<rparr>))))"
  using assms by (auto simp: poll_response_def Let_def)

lemma filter_removes_one:
  "distinct (map f xs) \<Longrightarrow> x \<in> f ` set xs
     \<Longrightarrow> length (filter (\<lambda>r. f r \<noteq> x) xs) = length xs - 1"
proof (induction xs)
  case Nil
  then show ?case by simp
next
  case (Cons a xs)
  show ?case
  proof (cases "f a = x")
    case True
    with Cons.prems have "x \<notin> f ` set xs" by auto
    then have "filter (\<lambda>r. f r \<noteq> x) xs = xs" by (auto simp: filter_id_conv)
    with True show ?thesis by simp
  next
    case False
    with Cons.prems have "x \<in> f ` set xs" "distinct (map f xs)" by auto
    with Cons.IH have "length (filter (\<lambda>r. f r \<noteq> x) xs) = length xs - 1" by simp
    moreover from \<open>x \<in> f ` set xs\<close> have "xs \<noteq> []" by auto
    ultimately show ?thesis using False by (cases xs) auto
  qed
qed

lemma polling_rider_reachable: "reachable polling_rider"
  unfolding polling_rider_def by (rule r_step[OF r_init t_saveResponse])

lemma polling_rider_eq:
  "polling_rider =
     initial_rider\<lparr>bookingStatus := Some ''PENDING'', pollStatus := ''polling'',
        abortControllerRef := Some 1, pollIntervalRef := Some 2,
        intervals := [(2, 3000, example_closure)], nextHandle := 3,
        trace := [Alert (BookingConfirmed example_body (IdStr ''b1'')), PollStatus ''polling'',
                  Sent (GetStatus (IdStr ''b1'') ''tok'') (Some 1)]\<rparr>"
  by (simp add: example_defs saveRoute_response_def pollBookingStatus_def poll_def screen_defs
        js_or_def truthy_id_def Let_def)

section \<open>The claims\<close>

text \<open>
  C1. Rider status poller: when the answer to a tick's status request carries the
  status DRIVER_ASSIGNED or ACCEPTED, the code after the request sets the poll status
  to \<open>found\<close> and alerts the rider, issues no request, leaves no interval timer live
  (so that no timer can fire: firing any handle changes nothing), and resets
  destination, route info, booking status and poll status to their values before a
  booking. This holds in every state the screen can reach.
\<close>

theorem poll_found_stops_and_resets:
  assumes "reachable st"
    and "status_of data = Some ''DRIVER_ASSIGNED'' \<or> status_of data = Some ''ACCEPTED''"
  shows "let st' = poll_response cl (Ok data) st in
     (\<exists>m tl. trace st' = trace st @ PollStatus ''found'' # Alert m # PollStatus ''idle'' # tl)
   \<and> requests (trace st') = requests (trace st)
   \<and> intervals st' = [] \<and> pollIntervalRef st' = None \<and> (\<forall>t. timerFired t st' = st')
   \<and> destination st' = destination initial_rider
   \<and> routeInfo st' = routeInfo initial_rider
   \<and> bookingStatus st' = bookingStatus initial_rider
   \<and> pollStatus st' = pollStatus initial_rider
   \<and> destination st' = None \<and> routeInfo st' = \<lparr>distance = 0, duration = 0\<rparr>
   \<and> bookingStatus st' = None \<and> pollStatus st' = ''idle''"
proof -
  define m where "m = DriverFound
      (contact_name (js_or (\<lambda>d. d \<noteq> None) (sd_assignedDriver data) (sd_driver data)))
      (contact_mobile (js_or (\<lambda>d. d \<noteq> None) (sd_assignedDriver data) (sd_driver data)))"
  define mid where
    "mid = stopPolling (alert m (setPollStatus ''found'' (st\<lparr>bookingStatus := status_of data\<rparr>)))"
  define st' where "st' = poll_response cl (Ok data) st"
  have inv: "timer_inv st"
    using assms(1) by (rule reachable_timer_inv)
  then have mid_iv: "intervals mid = []"
    by (cases "pollIntervalRef st") (auto simp: mid_def timer_inv_def screen_defs)
  have mid_tr: "trace mid = trace st @ [PollStatus ''found'', Alert m]"
    by (simp add: mid_def screen_defs split: option.split)
  have eq: "st' = handleRefresh (pc_currentPos cl) mid"
    unfolding st'_def mid_def m_def using assms(2) by (rule found_eq)
  have iv: "intervals st' = []"
    unfolding eq handleRefresh_eq using mid_iv
    by (simp add: Let_def split: option.split)
  have tr: "\<exists>m tl. trace st' = trace st @ PollStatus ''found'' # Alert m # PollStatus ''idle'' # tl"
    unfolding eq handleRefresh_eq using mid_tr
    by (simp add: Let_def split: option.split)
  have rq: "requests (trace st') = requests (trace st)"
    unfolding eq handleRefresh_eq using mid_tr
    by (simp add: Let_def requests_append split: option.split)
  have fields: "pollIntervalRef st' = None \<and> destination st' = None
      \<and> routeInfo st' = \<lparr>distance = 0, duration = 0\<rparr>
      \<and> bookingStatus st' = None \<and> pollStatus st' = ''idle''"
    unfolding eq handleRefresh_eq
    by (simp add: Let_def split: option.split)
  have init: "destination initial_rider = None
      \<and> routeInfo initial_rider = \<lparr>distance = 0, duration = 0\<rparr>
      \<and> bookingStatus initial_rider = None \<and> pollStatus initial_rider = ''idle''"
    by (simp add: initial_rider_def)
  have nofire: "timerFired t st' = st'" for t
    using iv by (simp add: timerFired_def callback_of_def)
  show ?thesis
    unfolding Let_def st'_def[symmetric] using iv tr rq fields init nofire by metis
qed

theorem poll_found_stops_and_resets_witness:
  "reachable polling_rider
   \<and> status_of accepted_data = Some ''ACCEPTED''
   \<and> intervals polling_rider = [(2, 3000, example_closure)]
   \<and> timerFired 2 polling_rider \<noteq> polling_rider
   \<and> bookingStatus polling_rider = Some ''PENDING''
   \<and> (let st' = poll_response example_closure (Ok accepted_data) polling_rider in
        intervals st' = [] \<and> pollIntervalRef st' = None \<and> timerFired 2 st' = st'
      \<and> requests (trace st') = requests (trace polling_rider)
      \<and> destination st' = None \<and> routeInfo st' = \<lparr>distance = 0, duration = 0\<rparr>
      \<and> bookingStatus st' = None \<and> pollStatus st' = ''idle'')"
proof -
  have s: "status_of accepted_data = Some ''ACCEPTED''"
    by (simp add: status_of_def accepted_data_def js_or_def truthy_str_def)
  have t: "timerFired 2 polling_rider \<noteq> polling_rider"
    by (simp add: polling_rider_eq timerFired_def poll_def screen_defs
          initial_rider_def Let_def)
  have w: "intervals (poll_response example_closure (Ok accepted_data) polling_rider) = []
      \<and> pollIntervalRef (poll_response example_closure (Ok accepted_data) polling_rider) = None
      \<and> timerFired 2 (poll_response example_closure (Ok accepted_data) polling_rider)
          = poll_response example_closure (Ok accepted_data) polling_rider
      \<and> requests (trace (poll_response example_closure (Ok accepted_data) polling_rider))
          = requests (trace polling_rider)
      \<and> destination (poll_response example_closure (Ok accepted_data) polling_rider) = None
      \<and> routeInfo (poll_response example_closure (Ok accepted_data) polling_rider)
          = \<lparr>distance = 0, duration = 0\<rparr>
      \<and> bookingStatus (poll_response example_closure (Ok accepted_data) polling_rider) = None
      \<and> pollStatus (poll_response example_closure (Ok accepted_data) polling_rider) = ''idle''"
    using poll_found_stops_and_resets[OF polling_rider_reachable, of accepted_data example_closure] s
    unfolding Let_def by blast
  have p: "intervals polling_rider = [(2, 3000, example_closure)]
      \<and> bookingStatus polling_rider = Some ''PENDING''"
    by (simp add: polling_rider_eq)
  show ?thesis
    unfolding Let_def using polling_rider_reachable s t w p by blast
qed

text \<open>
  C2. Booking submission: when the create-booking request succeeds and the answer has
  none of the fields \<^verbatim>\<open>bookingId\<close>, \<^verbatim>\<open>_id\<close>, \<^verbatim>\<open>id\<close>, the code after the request alerts the
  rider that no booking id was returned and only switches the submitting flag off: the
  booking status is not set to PENDING, no timer is started, no request is sent and the
  poll status is not touched.
\<close>

theorem missing_booking_id_is_hard_failure:
  assumes "bookingId data = None" and "id_underscore data = None" and "id_plain data = None"
  shows "let st' = saveRoute_response body tok (Ok data) st in
     st' = st\<lparr>trace := trace st @ [Alert NoBookingId], isSubmitting := False\<rparr>
   \<and> bookingStatus st' = bookingStatus st
   \<and> intervals st' = intervals st \<and> pollIntervalRef st' = pollIntervalRef st
   \<and> pollStatus st' = pollStatus st
   \<and> requests (trace st') = requests (trace st)"
  using assms
  by (simp add: saveRoute_response_def js_or_def truthy_id_def alert_def requests_append)

theorem missing_booking_id_is_hard_failure_witness:
  "bookingId no_id_created = None \<and> id_underscore no_id_created = None
   \<and> id_plain no_id_created = None
   \<and> trace (saveRoute_response example_body ''tok'' (Ok no_id_created) initial_rider)
       = [Alert NoBookingId]
   \<and> bookingStatus (saveRoute_response example_body ''tok'' (Ok no_id_created) initial_rider) = None
   \<and> intervals (saveRoute_response example_body ''tok'' (Ok no_id_created) initial_rider) = []
   \<and> bookingStatus polling_rider = Some ''PENDING''"
  using missing_booking_id_is_hard_failure[of no_id_created example_body "''tok''" initial_rider]
  by (simp add: no_id_created_def initial_rider_def polling_rider_eq Let_def)

text \<open>
  C3. Booking submission preconditions: when the current position or the destination
  is unset, or the distance of the route is zero, or storage holds no token, \<open>saveRoute\<close>
  shows one alert (the one of the first check that fails) and returns: the state is the
  one before but for that alert in the trace, so no request is sent and nothing of the
  local state changes.
\<close>

theorem saveRoute_precondition_violation:
  assumes "currentPos st = None \<or> destination st = None \<or> distance (routeInfo st) = 0
           \<or> tk = None \<or> tk = Some []"
  shows "\<exists>m. saveRoute tk st = st\<lparr>trace := trace st @ [Alert m]\<rparr>
           \<and> m = (if currentPos st = None \<or> destination st = None then SelectBoth
                  else if distance (routeInfo st) = 0 then WaitForRoute else LoginFirst)
           \<and> requests (trace (saveRoute tk st)) = requests (trace st)"
  using assms
  by (auto simp: saveRoute_def alert_def requests_append split: option.splits)

theorem saveRoute_precondition_violation_witness:
  "distance (routeInfo initial_rider) = 0
   \<and> saveRoute (Some ''tok'') initial_rider = initial_rider\<lparr>trace := [Alert SelectBoth]\<rparr>
   \<and> (\<exists>m. saveRoute None routed_rider = routed_rider\<lparr>trace := trace routed_rider @ [Alert m]\<rparr>)
   \<and> requests (trace (saveRoute (Some ''tok'') routed_rider)) \<noteq> requests (trace routed_rider)"
proof -
  note r = routed_rider_eq
  have "\<exists>m. saveRoute None routed_rider = routed_rider\<lparr>trace := trace routed_rider @ [Alert m]\<rparr>"
    using saveRoute_precondition_violation[of routed_rider None] by auto
  moreover have "requests (trace (saveRoute (Some ''tok'') routed_rider)) \<noteq> requests (trace routed_rider)"
    by (simp add: r saveRoute_def send_def initial_rider_def requests_append fl_12340)
  ultimately show ?thesis
    by (simp add: saveRoute_def alert_def initial_rider_def)
qed

text \<open>
  C4, as the code has it. When the stored route info is the estimate of a route of at
  most \<open>10^13\<close> m in either direction, let \<open>k\<close> be the hundredths that \<^verbatim>\<open>toFixed(2)\<close> gives
  the quotient of the meters by 1000 (the integer nearest to a hundred times the
  quotient, the one away from zero on a tie). The stored distance is the double of
  \<open>k / 100\<close>, and the fare the card displays, the fare string of \<open>saveRoute\<close> and the
  fare in the request are all \<open>k / 100\<close> times 50, exactly; the fare is not negative when
  the meters are not; it is computed from the \<open>routeInfo\<close> of the state the button is
  clicked in, and it is the fare of the request that is sent. A route of 12340 m gives
  the fare 617.
\<close>

theorem fare_of_route_estimate:
  assumes "routeInfo st = estimate route" and "\<bar>rt_distance route\<bar> \<le> 10 ^ 13"
  shows "let km = fl (rt_distance route / 1000); k = hundredths km in
         \<bar>of_int k - km * 100\<bar> \<le> 1 / 2
       \<and> (\<bar>of_int k - km * 100\<bar> = 1 / 2 \<longrightarrow> \<bar>km * 100\<bar> < \<bar>of_int k\<bar>)
       \<and> distance (routeInfo st) = fl (of_int k / 100)
       \<and> fare st = of_int k / 100 * 50
       \<and> displayedFare st = of_int k / 100 * 50
       \<and> estimatedFare (booking_request st) = of_int k / 100 * 50
       \<and> b_distance (booking_request st) = fl (of_int k / 100)
       \<and> (0 \<le> rt_distance route \<longrightarrow> 0 \<le> fare st)
       \<and> (currentPos st \<noteq> None \<and> destination st \<noteq> None \<and> distance (routeInfo st) \<noteq> 0
            \<and> tok \<noteq> [] \<longrightarrow>
            trace (saveRoute (Some tok) st)
              = trace st @ [Sent (CreateBooking (booking_request st) tok) (Some (nextHandle st))])
       \<and> (rt_distance route = 12340 \<longrightarrow> fare st = 617)"
proof -
  define km where "km = fl (rt_distance route / 1000)"
  define k where "k = hundredths km"
  have kb: "\<bar>km\<bar> < 10 ^ 21" "\<bar>k\<bar> \<le> 2 ^ 44"
    unfolding k_def km_def using assms(2) by (rule km_bounds)+
  have r: "\<bar>rat_of_int k - km * 100\<bar> \<le> 1 / 2"
    unfolding k_def by (rule hundredths_error)
  have ti: "\<bar>rat_of_int k - km * 100\<bar> = 1 / 2 \<longrightarrow> \<bar>km * 100\<bar> < \<bar>rat_of_int k\<bar>"
    unfolding k_def using hundredths_tie[of km] by blast
  have tk: "toFixed2 km = rat_of_int k / 100"
    using kb(1) by (simp add: toFixed2_def k_def)
  have d: "distance (routeInfo st) = fl (rat_of_int k / 100)"
    unfolding assms(1) estimate_def km_def[symmetric] tk by simp
  have "toFixed2 (fl (fl (rat_of_int k / 100) * 50)) = rat_of_int k / 2"
    using kb(2) by (rule fare_exact)
  then have f: "fare st = rat_of_int k / 100 * 50"
    by (simp add: fare_def d)
  have df: "displayedFare st = rat_of_int k / 100 * 50"
    using f by (simp add: displayedFare_def fare_def)
  have "fl (rat_of_int k / 2) = rat_of_int k / 2"
    using kb(2) by (rule fl_half_int)
  then have ef: "estimatedFare (booking_request st) = rat_of_int k / 100 * 50"
    by (simp add: booking_request_def f)
  have bd: "b_distance (booking_request st) = fl (rat_of_int k / 100)"
    by (simp add: booking_request_def d)
  have n: "0 \<le> rt_distance route \<longrightarrow> 0 \<le> fare st"
  proof
    assume "0 \<le> rt_distance route"
    then have "0 \<le> rt_distance route / 1000"
      by simp
    then have "0 \<le> km"
      unfolding km_def by (rule fl_nonneg)
    then have "0 \<le> k"
      unfolding k_def by (rule hundredths_nonneg)
    then show "0 \<le> fare st"
      by (simp add: f)
  qed
  have s: "currentPos st \<noteq> None \<and> destination st \<noteq> None \<and> distance (routeInfo st) \<noteq> 0
            \<and> tok \<noteq> [] \<longrightarrow>
            trace (saveRoute (Some tok) st)
              = trace st @ [Sent (CreateBooking (booking_request st) tok) (Some (nextHandle st))]"
    by (auto simp: saveRoute_def send_def)
  have e: "rt_distance route = 12340 \<longrightarrow> fare st = 617"
    using f by (auto simp: k_def km_def fl_12340)
  show ?thesis
    unfolding Let_def km_def[symmetric] k_def[symmetric]
    using r ti d f df ef bd n s e by blast
qed

theorem fare_of_route_estimate_witness:
  "routeInfo routed_rider = estimate example_route \<and> \<bar>rt_distance example_route\<bar> \<le> 10 ^ 13
   \<and> rt_distance example_route = 12340
   \<and> distance (routeInfo routed_rider) = fl (1234 / 100)
   \<and> fare routed_rider = 617 \<and> displayedFare routed_rider = 617
   \<and> trace (saveRoute (Some ''tok'') routed_rider)
       = [Sent (CreateBooking (booking_request routed_rider) ''tok'') (Some 1)]
   \<and> estimatedFare (booking_request routed_rider) = 617
   \<and> routeInfo (rider_on short_route) = estimate short_route
   \<and> rt_distance short_route = 1005
   \<and> fl (rt_distance short_route / 1000) < 1005 / 1000
   \<and> distance (routeInfo (rider_on short_route)) = 1
   \<and> fare (rider_on short_route) = 50
   \<and> estimatedFare (booking_request (rider_on short_route)) = 50"
proof -
  have r: "routeInfo routed_rider = estimate example_route"
    by (simp add: routed_rider_eq estimate_examples)
  have p: "\<bar>rt_distance example_route\<bar> \<le> 10 ^ 13 \<and> rt_distance example_route = 12340"
    by (simp add: example_route_def)
  have q: "currentPos routed_rider \<noteq> None \<and> destination routed_rider \<noteq> None
      \<and> distance (routeInfo routed_rider) \<noteq> 0 \<and> ''tok'' \<noteq> []
      \<and> trace routed_rider = [] \<and> nextHandle routed_rider = 1
      \<and> distance (routeInfo routed_rider) = fl (1234 / 100)"
    by (simp add: routed_rider_eq initial_rider_def fl_12340)
  have a: "fare routed_rider = 617 \<and> displayedFare routed_rider = 617
      \<and> trace (saveRoute (Some ''tok'') routed_rider)
          = [Sent (CreateBooking (booking_request routed_rider) ''tok'') (Some 1)]
      \<and> estimatedFare (booking_request routed_rider) = 617"
    using fare_of_route_estimate[OF r, of "''tok''"] p q
    by (simp add: example_route_def fl_12340 Let_def)
  have s: "routeInfo (rider_on short_route) = estimate short_route"
    by (simp add: rider_on_eq short_route_def)
  have t: "\<bar>rt_distance short_route\<bar> \<le> 10 ^ 13 \<and> rt_distance short_route = 1005"
    by (simp add: short_route_def)
  have u: "fl (rt_distance short_route / 1000) < 1005 / 1000"
    unfolding short_route_def by code_simp
  have b: "distance (routeInfo (rider_on short_route)) = 1
      \<and> fare (rider_on short_route) = 50
      \<and> estimatedFare (booking_request (rider_on short_route)) = 50"
    using fare_of_route_estimate[OF s, of "''tok''"] t
    by (simp add: short_route_def fl_1005 Let_def)
  show ?thesis
    using r p q a s t u b by blast
qed

text \<open>
  C4 as stated fails for a route of a negative length, which the code does not
  reject: for \<open>-1234\<close> m the fare displayed is \<open>-61.50\<close>, and that is the fare of the
  request that \<open>saveRoute\<close> sends. It fails as well far beyond \<open>10^13\<close> m, where the
  product with 50 is no longer a double: for \<open>2^60\<close> m the fare string is not 50 times
  the stored distance.
\<close>

theorem negative_route_negative_fare:
  "routeInfo (rider_on negative_route) = estimate negative_route
   \<and> rt_distance negative_route = - 1234
   \<and> distance (routeInfo (rider_on negative_route)) = fl (- (123 / 100))
   \<and> displayedFare (rider_on negative_route) = - (123 / 2)
   \<and> fare (rider_on negative_route) < 0
   \<and> trace (saveRoute (Some ''tok'') (rider_on negative_route))
       = [Sent (CreateBooking (booking_request (rider_on negative_route)) ''tok'') (Some 1)]
   \<and> estimatedFare (booking_request (rider_on negative_route)) = - (123 / 2)
   \<and> routeInfo (rider_on far_route) = estimate far_route
   \<and> distance (routeInfo (rider_on far_route)) = 1152921504606847
   \<and> fare (rider_on far_route) = 57646075230342352
   \<and> fare (rider_on far_route) \<noteq> distance (routeInfo (rider_on far_route)) * 50"
proof -
  have n: "rider_on negative_route =
      initial_rider\<lparr>currentPos := Some centerSriLanka, destination := Some (7, 80),
        routeInfo := \<lparr>distance = fl (- (123 / 100)), duration = 1\<rparr>\<rparr>"
    using rider_on_eq[of negative_route] unfolding estimate_examples
    by (simp add: negative_route_def)
  have f: "rider_on far_route =
      initial_rider\<lparr>currentPos := Some centerSriLanka, destination := Some (7, 80),
        routeInfo := \<lparr>distance = 1152921504606847, duration = 1\<rparr>\<rparr>"
    using rider_on_eq[of far_route] unfolding estimate_examples
    by (simp add: far_route_def)
  have m: "rt_distance negative_route = - 1234"
    by (simp add: negative_route_def)
  have "routeInfo (rider_on negative_route) = estimate negative_route
   \<and> rt_distance negative_route = - 1234
   \<and> distance (routeInfo (rider_on negative_route)) = fl (- (123 / 100))
   \<and> displayedFare (rider_on negative_route) = - (123 / 2)
   \<and> fare (rider_on negative_route) < 0
   \<and> trace (saveRoute (Some ''tok'') (rider_on negative_route))
       = [Sent (CreateBooking (booking_request (rider_on negative_route)) ''tok'') (Some 1)]
   \<and> estimatedFare (booking_request (rider_on negative_route)) = - (123 / 2)"
    unfolding n m
    by (simp add: estimate_examples fare_def displayedFare_def
          booking_request_def saveRoute_def send_def initial_rider_def fl_negative)
  moreover have "routeInfo (rider_on far_route) = estimate far_route
   \<and> distance (routeInfo (rider_on far_route)) = 1152921504606847
   \<and> fare (rider_on far_route) = 57646075230342352
   \<and> fare (rider_on far_route) \<noteq> distance (routeInfo (rider_on far_route)) * 50"
    unfolding f
    by (simp add: estimate_examples fare_def fl_far)
  ultimately show ?thesis
    by blast
qed

text \<open>
  C5. Route estimator: from an answer with at least one route, the code stores, as the
  distance, the first route's meters divided by 1000 and rounded to two decimals, and,
  as the duration, the ceiling of the first route's seconds divided by 60, each step
  being the one of JavaScript on doubles: the quotient \<open>km\<close> is the double nearest to
  the exact quotient, \<^verbatim>\<open>toFixed(2)\<close> gives the number of hundredths nearest to \<open>km\<close> (the
  one away from zero on a tie), and the number stored is the double nearest to that. For
  a whole number of meters up to \<open>10^13\<close> the hundredths are nearest to the exact quotient
  as well. The duration is the least whole number not below the double quotient of the
  seconds by 60. An answer with an empty list of routes, or with none, leaves the whole
  state as it was.
\<close>

theorem route_estimate_stored:
  "let km = fl (rt_distance route / 1000); mins = fl (rt_duration route / 60) in
     routeInfo (calculateRoute_response (Ok (Some (route # more_routes))) st)
       = \<lparr>distance = fl (toFixed2 km), duration = \<lceil>mins\<rceil>\<rparr>
   \<and> \<bar>km - rt_distance route / 1000\<bar>
       \<le> \<bar>rt_distance route / 1000\<bar> * 2 powi (- 53) + 2 powi (- 1075)
   \<and> toFixed2 km * 100 \<in> \<int>
   \<and> \<bar>toFixed2 km - km\<bar> \<le> 1 / 200
   \<and> (\<bar>toFixed2 km - km\<bar> = 1 / 200 \<longrightarrow> \<bar>km\<bar> < \<bar>toFixed2 km\<bar>)
   \<and> \<bar>fl (toFixed2 km) - toFixed2 km\<bar> \<le> \<bar>toFixed2 km\<bar> * 2 powi (- 53)
   \<and> (rt_distance route \<in> \<int> \<and> \<bar>rt_distance route\<bar> \<le> 10 ^ 13 \<longrightarrow>
        \<bar>toFixed2 km - rt_distance route / 1000\<bar> \<le> 1 / 200)
   \<and> \<bar>mins - rt_duration route / 60\<bar>
       \<le> \<bar>rt_duration route / 60\<bar> * 2 powi (- 53) + 2 powi (- 1075)
   \<and> mins \<le> of_int \<lceil>mins\<rceil> \<and> of_int \<lceil>mins\<rceil> < mins + 1
   \<and> calculateRoute_response (Ok (Some [])) st = st
   \<and> calculateRoute_response (Ok None) st = st"
proof -
  define km where "km = fl (rt_distance route / 1000)"
  define mins where "mins = fl (rt_duration route / 60)"
  define u where "u = (2::rat) powi (- 53)"
  define t where "t = (2::rat) powi (- 1075)"
  have a: "routeInfo (calculateRoute_response (Ok (Some (route # more_routes))) st)
       = \<lparr>distance = fl (toFixed2 km), duration = \<lceil>mins\<rceil>\<rparr>"
    by (simp add: calculateRoute_response_def estimate_def km_def mins_def Let_def emit_def
          split: option.split)
  have b: "\<bar>km - rt_distance route / 1000\<bar> \<le> \<bar>rt_distance route / 1000\<bar> * u + t"
    unfolding km_def u_def t_def by (rule fl_error_general)
  have c: "toFixed2 km * 100 \<in> \<int>"
    unfolding km_def by (rule toFixed2_fl_hundredths)
  have d: "\<bar>toFixed2 km - km\<bar> \<le> 1 / 200"
    by (rule toFixed2_error)
  have e: "\<bar>toFixed2 km - km\<bar> = 1 / 200 \<longrightarrow> \<bar>km\<bar> < \<bar>toFixed2 km\<bar>"
    using toFixed2_tie[of km] by blast
  have f: "\<bar>fl (toFixed2 km) - toFixed2 km\<bar> \<le> \<bar>toFixed2 km\<bar> * u"
  proof (cases "toFixed2 km = 0")
    case True
    then show ?thesis by (simp add: fl_zero)
  next
    case False
    from c obtain n where n: "toFixed2 km * 100 = rat_of_int n"
      by (rule Ints_cases)
    then have "n \<noteq> 0"
      using False by auto
    then have "1 \<le> \<bar>rat_of_int n\<bar>"
      by (simp flip: of_int_abs)
    then have "1 \<le> \<bar>toFixed2 km\<bar> * 100"
      by (simp flip: n add: abs_mult)
    then have "1 / 128 \<le> \<bar>toFixed2 km\<bar>"
      by linarith
    then have "2 powi (- 1022) \<le> \<bar>toFixed2 km\<bar>"
      by (rule normal_ge)
    then show ?thesis
      unfolding u_def by (rule fl_error)
  qed
  have g: "rt_distance route \<in> \<int> \<and> \<bar>rt_distance route\<bar> \<le> 10 ^ 13 \<longrightarrow>
        \<bar>toFixed2 km - rt_distance route / 1000\<bar> \<le> 1 / 200"
  proof
    assume h: "rt_distance route \<in> \<int> \<and> \<bar>rt_distance route\<bar> \<le> 10 ^ 13"
    then obtain m where m: "rt_distance route = rat_of_int m"
      by (auto elim: Ints_cases)
    have "\<bar>rat_of_int m\<bar> \<le> rat_of_int (10 ^ 13)"
      using h by (simp add: m)
    then have mb: "\<bar>m\<bar> \<le> 10 ^ 13"
      by (simp only: of_int_le_iff flip: of_int_abs)
    have "\<bar>km\<bar> < 10 ^ 21"
      unfolding km_def using h by (intro km_bounds(2)) simp
    then have "toFixed2 km = rat_of_int (hundredths km) / 100"
      by (simp add: toFixed2_def)
    then show "\<bar>toFixed2 km - rt_distance route / 1000\<bar> \<le> 1 / 200"
      using whole_meters_nearest[OF mb] by (simp only: km_def m)
  qed
  have i: "\<bar>mins - rt_duration route / 60\<bar> \<le> \<bar>rt_duration route / 60\<bar> * u + t"
    unfolding mins_def u_def t_def by (rule fl_error_general)
  have j: "mins \<le> of_int \<lceil>mins\<rceil>" "of_int \<lceil>mins\<rceil> < mins + 1"
    by linarith+
  have k: "calculateRoute_response (Ok (Some [])) st = st"
    "calculateRoute_response (Ok None) st = st"
    by (simp_all add: calculateRoute_response_def)
  show ?thesis
    unfolding Let_def km_def[symmetric] mins_def[symmetric] u_def[symmetric] t_def[symmetric]
    using a b c d e f g i j k by blast
qed

theorem route_estimate_stored_witness:
  "rt_distance tie_route = 125 \<and> rt_distance tie_route \<in> \<int> \<and> \<bar>rt_distance tie_route\<bar> \<le> 10 ^ 13
   \<and> fl (rt_distance tie_route / 1000) = 1 / 8
   \<and> toFixed2 (1 / 8) = 13 / 100
   \<and> \<bar>toFixed2 (1 / 8) - 1 / 8\<bar> = 1 / 200
   \<and> \<bar>1 / 8\<bar> < \<bar>toFixed2 (1 / 8 :: rat)\<bar>
   \<and> routeInfo (calculateRoute_response (Ok (Some [tie_route, example_route])) initial_rider)
       = \<lparr>distance = fl (13 / 100), duration = 1\<rparr>
   \<and> \<bar>toFixed2 (1 / 8) - rt_distance tie_route / 1000\<bar> \<le> 1 / 200
   \<and> rt_distance short_route = 1005 \<and> rt_duration short_route = 61
   \<and> routeInfo (calculateRoute_response (Ok (Some [short_route])) initial_rider)
       = \<lparr>distance = 1, duration = 2\<rparr>"
proof -
  have s: "rt_distance short_route = 1005 \<and> rt_duration short_route = 61"
    by (simp add: short_route_def)
  have "routeInfo (calculateRoute_response (Ok (Some [short_route])) initial_rider)
       = \<lparr>distance = fl (toFixed2 (fl (rt_distance short_route / 1000))),
          duration = \<lceil>fl (rt_duration short_route / 60)\<rceil>\<rparr>"
    using route_estimate_stored[of short_route "[]" initial_rider]
    unfolding Let_def by blast
  then have t: "routeInfo (calculateRoute_response (Ok (Some [short_route])) initial_rider)
       = \<lparr>distance = 1, duration = 2\<rparr>"
    by (simp add: short_route_def toFixed2_examples fl_1005 fl_61)
  have p: "rt_distance tie_route = 125 \<and> rt_distance tie_route \<in> \<int>
      \<and> \<bar>rt_distance tie_route\<bar> \<le> 10 ^ 13"
    by (simp add: tie_route_def)
  have q: "fl (rt_distance tie_route / 1000) = 1 / 8"
    by (simp add: tie_route_def fl_125)
  have r: "toFixed2 (1 / 8) = 13 / 100 \<and> \<bar>toFixed2 (1 / 8) - 1 / 8\<bar> = 1 / 200"
    by (simp add: toFixed2_examples)
  have m: "\<lceil>fl (rt_duration tie_route / 60)\<rceil> = 1"
    by (simp add: tie_route_def fl_61)
  define km where "km = fl (rt_distance tie_route / 1000)"
  have "(\<bar>toFixed2 km - km\<bar> = 1 / 200 \<longrightarrow> \<bar>km\<bar> < \<bar>toFixed2 km\<bar>)
   \<and> routeInfo (calculateRoute_response (Ok (Some [tie_route, example_route])) initial_rider)
       = \<lparr>distance = fl (toFixed2 km), duration = \<lceil>fl (rt_duration tie_route / 60)\<rceil>\<rparr>
   \<and> (rt_distance tie_route \<in> \<int> \<and> \<bar>rt_distance tie_route\<bar> \<le> 10 ^ 13 \<longrightarrow>
        \<bar>toFixed2 km - rt_distance tie_route / 1000\<bar> \<le> 1 / 200)"
    using route_estimate_stored[of tie_route "[example_route]" initial_rider]
    unfolding Let_def km_def by blast
  then have "\<bar>1 / 8\<bar> < \<bar>toFixed2 (1 / 8 :: rat)\<bar>
   \<and> routeInfo (calculateRoute_response (Ok (Some [tie_route, example_route])) initial_rider)
       = \<lparr>distance = fl (13 / 100), duration = 1\<rparr>
   \<and> \<bar>toFixed2 (1 / 8) - rt_distance tie_route / 1000\<bar> \<le> 1 / 200"
    using p r unfolding km_def q m by simp
  then show ?thesis
    using p q r s t by blast
qed

text \<open>
  C6, as the code has it. When a pending-rides request fails, the ride list is cleared,
  the polling interval and the live timer are left as they are, and the re-render runs
  no effect; the poll status becomes \<open>paused\<close> for the error code ECONNABORTED, is left
  as it was for a cancellation, and becomes \<open>idle\<close> for any other error.
\<close>

theorem rides_fetch_failure:
  "let st' = fetchAvailableRides_response cl now (Failed err) st in
     pollStatus st' =
       (if err_code err = Some ''ECONNABORTED'' then ''paused''
        else if err_isCancel err then pollStatus st else ''idle'')
   \<and> rides st' = [] \<and> pollInterval st' = pollInterval st
   \<and> intervals st' = intervals st \<and> pollIntervalRef st' = pollIntervalRef st
   \<and> requests (trace st') = requests (trace st)
   \<and> rerender st st' = st'"
  by (simp add: fetchAvailableRides_response_def setPollStatus_def rerender_def
        requests_append Let_def)

text \<open>
  C6 as stated fails for a cancellation: the poll of an online driver that ends in a
  cancellation error leaves the poll status at \<open>polling\<close>, not \<open>paused\<close>.
\<close>

theorem cancelled_fetch_not_paused:
  "err_isCancel cancel_error
   \<and> pollStatus (fetchAvailableRides_response (closure_of online_driver) ''10:00''
        (Failed cancel_error) (fetchAvailableRides (closure_of online_driver) online_driver))
       = ''polling''
   \<and> pollStatus (fetchAvailableRides_response (closure_of online_driver) ''10:00''
        (Failed cancel_error) (fetchAvailableRides (closure_of online_driver) online_driver))
       \<noteq> ''paused''"
  by (simp add: driver_defs screen_defs example_defs Let_def)



text \<open>
  C8. Accept and decline: for a ride identifier of the local list, the code after a
  successful accept or decline request keeps exactly the rides with another identifier,
  in their order (one ride less when the identifiers of the list are distinct), sends
  no request, and the re-render runs no polling effect. After a failed request the
  state is the one before but for one alert in the trace: the list is unchanged.
\<close>

theorem accept_decline_update_list:
  assumes "rideId \<in> ride_id ` set (rides st)"
  shows "(let st' = handleAccept_response rideId (Ok ()) st in
            rides st' = filter (\<lambda>r. ride_id r \<noteq> rideId) (rides st)
          \<and> rideId \<notin> ride_id ` set (rides st')
          \<and> (distinct (map ride_id (rides st)) \<longrightarrow> length (rides st') = length (rides st) - 1)
          \<and> requests (trace st') = requests (trace st) \<and> rerender st st' = st')
       \<and> (let st' = handleDecline_response rideId (Ok ()) st in
            rides st' = filter (\<lambda>r. ride_id r \<noteq> rideId) (rides st)
          \<and> rideId \<notin> ride_id ` set (rides st')
          \<and> (distinct (map ride_id (rides st)) \<longrightarrow> length (rides st') = length (rides st) - 1)
          \<and> requests (trace st') = requests (trace st) \<and> rerender st st' = st')
       \<and> (let st' = handleAccept_response rideId (Failed err) st in
            rides st' = rides st \<and> (\<exists>m. st' = st\<lparr>trace := trace st @ [Alert m]\<rparr>))
       \<and> (let st' = handleDecline_response rideId (Failed err) st in
            rides st' = rides st \<and> (\<exists>m. st' = st\<lparr>trace := trace st @ [Alert m]\<rparr>))"
proof -
  have len: "distinct (map ride_id (rides st)) \<longrightarrow>
      length (filter (\<lambda>r. ride_id r \<noteq> rideId) (rides st)) = length (rides st) - 1"
    using assms by (simp add: filter_removes_one)
  show ?thesis
    using len
    by (auto simp: handleAccept_response_def handleDecline_response_def alert_def emit_def
                   rerender_def requests_append Let_def)
qed

theorem accept_decline_update_list_witness:
  "Some ''r1'' \<in> ride_id ` set (rides (online_driver\<lparr>rides := example_rides\<rparr>))
   \<and> rides (handleAccept_response (Some ''r1'') (Ok ()) (online_driver\<lparr>rides := example_rides\<rparr>))
       = [\<lparr>ride_id = Some ''r2'', ride_details = ''Galle - Matara''\<rparr>]
   \<and> rides (handleDecline_response (Some ''r1'') (Ok ()) (online_driver\<lparr>rides := example_rides\<rparr>))
       = [\<lparr>ride_id = Some ''r2'', ride_details = ''Galle - Matara''\<rparr>]
   \<and> rides (handleAccept_response (Some ''r1'') (Failed cancel_error)
        (online_driver\<lparr>rides := example_rides\<rparr>)) = example_rides"
  using accept_decline_update_list[of "Some ''r1''" "online_driver\<lparr>rides := example_rides\<rparr>" cancel_error]
  by (simp add: example_rides_def Let_def)

text \<open>
  C9, as the code has it. In every state, \<open>handleRefresh\<close> clears destination, search
  query, suggestions, route info and booking status and sets the poll status to \<open>idle\<close>,
  removes the timer that \<^verbatim>\<open>pollIntervalRef\<close> holds from the live timers and empties the
  ref, aborts the controller that \<^verbatim>\<open>abortControllerRef\<close> holds and no other, sends no
  request, and leaves the current position, the name of the start location and the
  submitting flag as they are. In every reachable state no timer is live afterwards, and
  the signal of every status request that was sent is aborted. The poll status is
  \<open>idle\<close> when the handler returns: the cancellation that the abort answers a status
  request in flight with sets it to \<open>timeout\<close>.
\<close>

theorem handleRefresh_frame:
  "let st' = handleRefresh cp st in
     destination st' = None \<and> searchQuery st' = [] \<and> suggestions st' = []
   \<and> routeInfo st' = \<lparr>distance = 0, duration = 0\<rparr> \<and> bookingStatus st' = None
   \<and> pollStatus st' = ''idle'' \<and> pollIntervalRef st' = None
   \<and> intervals st' = filter (\<lambda>e. Some (fst e) \<noteq> pollIntervalRef st) (intervals st)
   \<and> set (aborted st') = set (aborted st) \<union> set_option (abortControllerRef st)
   \<and> requests (trace st') = requests (trace st)
   \<and> currentPos st' = currentPos st \<and> startName st' = startName st
   \<and> isSubmitting st' = isSubmitting st
   \<and> (reachable st \<longrightarrow>
        intervals st' = []
      \<and> list_all (\<lambda>c. c \<in> set (aborted st')) (status_signals (trace st')))
   \<and> (err_isCancel err \<longrightarrow> pollStatus (poll_response cl (Failed err) st') = ''timeout'')"
proof -
  have a: "reachable st \<longrightarrow>
      list_all (\<lambda>c. c \<in> set (aborted (handleRefresh cp st)))
        (status_signals (trace (handleRefresh cp st)))"
    using reachable_signal_inv[of st]
    unfolding handleRefresh_eq
    by (auto simp: signal_inv_def list_all_iff status_signals_append Let_def split: option.splits)
  have b: "reachable st \<longrightarrow> intervals (handleRefresh cp st) = []"
    using reachable_timer_inv[of st]
    unfolding handleRefresh_eq
    by (cases "pollIntervalRef st") (auto simp: timer_inv_def Let_def split: option.splits)
  have c: "let st' = handleRefresh cp st in
     destination st' = None \<and> searchQuery st' = [] \<and> suggestions st' = []
   \<and> routeInfo st' = \<lparr>distance = 0, duration = 0\<rparr> \<and> bookingStatus st' = None
   \<and> pollStatus st' = ''idle'' \<and> pollIntervalRef st' = None
   \<and> intervals st' = filter (\<lambda>e. Some (fst e) \<noteq> pollIntervalRef st) (intervals st)
   \<and> set (aborted st') = set (aborted st) \<union> set_option (abortControllerRef st)
   \<and> requests (trace st') = requests (trace st)
   \<and> currentPos st' = currentPos st \<and> startName st' = startName st
   \<and> isSubmitting st' = isSubmitting st"
    unfolding handleRefresh_eq
    by (auto simp: Let_def requests_append split: option.splits)
  have d: "err_isCancel err \<longrightarrow>
      pollStatus (poll_response cl (Failed err) (handleRefresh cp st)) = ''timeout''"
    by (simp add: poll_response_def setPollStatus_def)
  show ?thesis
    using a b c d unfolding Let_def by blast
qed

theorem handleRefresh_frame_witness:
  "reachable polling_rider
   \<and> intervals polling_rider = [(2, 3000, example_closure)]
   \<and> abortControllerRef polling_rider = Some 1
   \<and> status_signals (trace polling_rider) = [1]
   \<and> aborted polling_rider = []
   \<and> intervals (handleRefresh None polling_rider) = []
   \<and> list_all (\<lambda>c. c \<in> set (aborted (handleRefresh None polling_rider)))
        (status_signals (trace (handleRefresh None polling_rider)))
   \<and> bookingStatus (handleRefresh None polling_rider) = None
   \<and> startName (handleRefresh None polling_rider) = startName polling_rider
   \<and> err_isCancel cancel_error
   \<and> pollStatus (poll_response example_closure (Failed cancel_error)
        (handleRefresh None polling_rider)) = ''timeout''"
proof -
  have p: "intervals polling_rider = [(2, 3000, example_closure)]
   \<and> abortControllerRef polling_rider = Some 1
   \<and> status_signals (trace polling_rider) = [1]
   \<and> aborted polling_rider = []
   \<and> err_isCancel cancel_error"
    by (simp add: polling_rider_eq initial_rider_def cancel_error_def)
  have w: "intervals (handleRefresh None polling_rider) = []
   \<and> list_all (\<lambda>c. c \<in> set (aborted (handleRefresh None polling_rider)))
        (status_signals (trace (handleRefresh None polling_rider)))
   \<and> bookingStatus (handleRefresh None polling_rider) = None
   \<and> startName (handleRefresh None polling_rider) = startName polling_rider
   \<and> pollStatus (poll_response example_closure (Failed cancel_error)
        (handleRefresh None polling_rider)) = ''timeout''"
    using handleRefresh_frame[of None polling_rider cancel_error example_closure]
      polling_rider_reachable p
    unfolding Let_def by blast
  show ?thesis
    using w p polling_rider_reachable by blast
qed

text \<open>
  C9 as stated fails for the requests that carry no signal of \<^verbatim>\<open>abortControllerRef\<close>.
  A booking submission in flight has a controller of its own: a reset during it aborts
  nothing, the request stays in flight, and its answer sets the booking status to
  \<open>PENDING\<close> and starts the poller after the reset. The fallback request of the poller
  carries no signal at all: after a reset its answer sets the booking status again.
  And the status request that the reset does abort ends in a cancellation, which sets
  the poll status to \<open>timeout\<close>.
\<close>

theorem reset_leaves_requests_in_flight:
  "trace submitting_rider = [Sent (CreateBooking (booking_request routed_rider) ''tok'') (Some 1)]
   \<and> abortControllerRef submitting_rider = None
   \<and> aborted (refreshClicked submitting_rider) = []
   \<and> requests (trace (refreshClicked submitting_rider))
       = [CreateBooking (booking_request routed_rider) ''tok'']
   \<and> bookingStatus (refreshClicked submitting_rider) = None
   \<and> bookingStatus (saveRoute_response (booking_request routed_rider) ''tok'' (Ok example_created)
        (refreshClicked submitting_rider)) = Some ''PENDING''
   \<and> map fst (intervals (saveRoute_response (booking_request routed_rider) ''tok''
        (Ok example_created) (refreshClicked submitting_rider))) = [3]
   \<and> trace (poll_response example_closure (Failed not_found_error) polling_rider)
       = trace polling_rider @ [Sent (GetBooking (IdStr ''b1'') ''tok'') None]
   \<and> bookingStatus (refreshClicked
        (poll_response example_closure (Failed not_found_error) polling_rider)) = None
   \<and> bookingStatus (poll_fallback_response example_closure (Ok pending_booking)
        (refreshClicked (poll_response example_closure (Failed not_found_error) polling_rider)))
       = Some ''PENDING''
   \<and> pollStatus (refreshClicked polling_rider) = ''idle''
   \<and> pollStatus (poll_response example_closure (Failed cancel_error)
        (refreshClicked polling_rider)) = ''timeout''"
proof -
  have s: "submitting_rider =
      routed_rider\<lparr>isSubmitting := True, nextHandle := 2,
        trace := [Sent (CreateBooking (booking_request routed_rider) ''tok'') (Some 1)]\<rparr>"
    by (simp add: submitting_rider_def saveRoute_def send_def routed_rider_eq initial_rider_def
          fl_12340)
  have a: "trace submitting_rider
        = [Sent (CreateBooking (booking_request routed_rider) ''tok'') (Some 1)]
   \<and> abortControllerRef submitting_rider = None"
    by (simp add: s routed_rider_eq initial_rider_def)
  have r: "refreshClicked submitting_rider = handleRefresh (Some centerSriLanka) submitting_rider"
    by (simp add: refreshClicked_def s routed_rider_eq)
  have b: "aborted (refreshClicked submitting_rider) = []
   \<and> requests (trace (refreshClicked submitting_rider))
       = [CreateBooking (booking_request routed_rider) ''tok'']
   \<and> bookingStatus (refreshClicked submitting_rider) = None"
    unfolding r handleRefresh_eq
    by (simp add: s routed_rider_eq initial_rider_def requests_append Let_def)
  have c: "bookingStatus (saveRoute_response (booking_request routed_rider) ''tok'' (Ok example_created)
        (refreshClicked submitting_rider)) = Some ''PENDING''
   \<and> map fst (intervals (saveRoute_response (booking_request routed_rider) ''tok''
        (Ok example_created) (refreshClicked submitting_rider))) = [3]"
    unfolding r handleRefresh_eq
    by (simp add: s routed_rider_eq initial_rider_def saveRoute_response_def pollBookingStatus_def
          poll_def screen_defs example_created_def js_or_def truthy_id_def Let_def)
  have d: "trace (poll_response example_closure (Failed not_found_error) polling_rider)
       = trace polling_rider @ [Sent (GetBooking (IdStr ''b1'') ''tok'') None]"
    by (simp add: poll_response_def not_found_error_def example_closure_def send_def)
  have e: "bookingStatus (refreshClicked
        (poll_response example_closure (Failed not_found_error) polling_rider)) = None
   \<and> bookingStatus (poll_fallback_response example_closure (Ok pending_booking)
        (refreshClicked (poll_response example_closure (Failed not_found_error) polling_rider)))
       = Some ''PENDING''
   \<and> pollStatus (refreshClicked polling_rider) = ''idle''
   \<and> pollStatus (poll_response example_closure (Failed cancel_error)
        (refreshClicked polling_rider)) = ''timeout''"
    unfolding refreshClicked_def handleRefresh_eq
    by (simp add: poll_response_def poll_fallback_response_def not_found_error_def
          cancel_error_def pending_booking_def setPollStatus_def send_def polling_rider_eq
          initial_rider_def Let_def)
  show ?thesis
    using a b c d e by blast
qed

text \<open>
  C10. Destination search: the effect run for a query of fewer than two characters
  empties the suggestions, leaves no debounce timer pending and sends nothing, and a
  timer firing then does nothing; the run for a longer query only arms the debounce
  timer of 500 ms with that query, and the request is sent when that timer fires. In
  every reachable state, every search that was sent has a query of two characters at
  least.
\<close>

theorem search_minimum_length:
  "(length (searchQuery st) < 2 \<longrightarrow>
      (let st' = searchEffect (searchCleanup st) in
         suggestions st' = [] \<and> searchTimer st' = None \<and> trace st' = trace st
         \<and> searchTimerFired st' = st'))
   \<and> (2 \<le> length (searchQuery st) \<longrightarrow>
      (let st' = searchEffect (searchCleanup st) in
         searchTimer st' = Some (500, searchQuery st) \<and> trace st' = trace st
         \<and> suggestions st' = suggestions st
         \<and> trace (searchTimerFired st') = trace st @ [Sent (Search (searchQuery st)) None]))
   \<and> (q \<noteq> searchQuery st \<longrightarrow> typed q st = searchEffect (searchCleanup (st\<lparr>searchQuery := q\<rparr>)))
   \<and> (reachable st \<longrightarrow> list_all (\<lambda>q. 2 \<le> length q) (search_queries (trace st)))"
proof -
  have "reachable st \<longrightarrow> list_all (\<lambda>q. 2 \<le> length q) (search_queries (trace st))"
    using reachable_search_inv[of st] by (simp add: search_inv_def)
  then show ?thesis
    by (auto simp: searchEffect_def searchCleanup_def searchTimerFired_def typed_def send_def Let_def)
qed

theorem search_minimum_length_witness:
  "length (utf16 ''C'') < 2 \<and> 2 \<le> length (utf16 ''Col'') \<and> reachable polling_rider
   \<and> search_queries (trace polling_rider) = []
   \<and> searchTimer (typed (utf16 ''C'') initial_rider) = None
   \<and> trace (searchTimerFired (typed (utf16 ''C'') initial_rider)) = []
   \<and> searchTimer (typed (utf16 ''Col'') initial_rider) = Some (500, utf16 ''Col'')
   \<and> trace (typed (utf16 ''Col'') initial_rider) = []
   \<and> trace (searchTimerFired (typed (utf16 ''Col'') initial_rider))
       = [Sent (Search (utf16 ''Col'')) None]"
proof -
  have a: "searchQuery (initial_rider\<lparr>searchQuery := utf16 ''C''\<rparr>) = utf16 ''C''
      \<and> searchQuery (initial_rider\<lparr>searchQuery := utf16 ''Col''\<rparr>) = utf16 ''Col''
      \<and> utf16 ''C'' \<noteq> searchQuery initial_rider \<and> utf16 ''Col'' \<noteq> searchQuery initial_rider
      \<and> trace initial_rider = []
      \<and> length (utf16 ''C'') < 2 \<and> 2 \<le> length (utf16 ''Col'')"
    by (simp add: initial_rider_def utf16_def)
  have b: "search_queries (trace polling_rider) = []"
    by (simp add: polling_rider_eq)
  show ?thesis
    using search_minimum_length[of "initial_rider\<lparr>searchQuery := utf16 ''C''\<rparr>" "utf16 ''C''"]
      search_minimum_length[of "initial_rider\<lparr>searchQuery := utf16 ''Col''\<rparr>" "utf16 ''Col''"]
      search_minimum_length[of initial_rider "utf16 ''C''"]
      search_minimum_length[of initial_rider "utf16 ''Col''"]
      polling_rider_reachable a b
    by (simp add: Let_def)
qed

end
